theory Spec2Isabelle
  imports Main "HOL-Library.Sublist" "HOL-Library.Multiset"
begin

section \<open>The photo selection server (server.js)\<close>

text \<open>
  The server keeps one document \<open>dbData\<close> in memory (the sessions, keyed by session id, and
  the portfolio items), rewrites \<open>db.json\<close> from it after every mutation, and answers
  eleven HTTP routes. Each route handler is embedded as a function from the request's
  parameters, the values the handler obtains from its runtime (\<open>env\<close>) and the server state
  to a response and the new state. The repository holds two more copies of the file: one
  reads \<open>DEBUG_MODE\<close> and the domain from a configuration module, the other is an
  earlier version without the portfolio; the handlers of the sessions are the same in all
  three.

  Conventions of the embedding:
  \<^item> a JavaScript string is a \<open>string\<close>: well-formed text, held as the bytes of its UTF-8
    encoding (a literal \<open>''abc''\<close> is ASCII text);
  \<^item> a parameter of a request that may be missing is an option (\<open>None\<close> is
    \<open>undefined\<close>). A parameter of the query string is a \<open>qvalue\<close>: Express parses a
    repeated or bracketed parameter into an array or an object. A field of a JSON or
    multipart body that names a session, a photo, a page or a customer is a string; the one
    body field whose shape the code tests (\<open>selectedPhotoIds\<close>) is a \<open>json\<close> value;
  \<^item> \<open>dbData.sessions\<close> is an association list holding its own properties in the order in
    which \<open>Object.keys\<close> enumerates them, one entry per property. A read
    \<open>dbData.sessions[k]\<close> finds an own property or, failing that, a member inherited
    from \<open>Object.prototype\<close> (\<open>get_property\<close>);
  \<^item> a handler that throws sends no response of its own: its response is
    \<open>ThrowsTypeError\<close> and the state is what it was when the exception was thrown;
  \<^item> \<open>createdAt\<close> is the time value (milliseconds) that \<open>new Date(createdAt)\<close> yields
    for the stored ISO string; a number is \<open>NaN\<close>, an infinity, or an integer that a
    double holds exactly (no handler computes a fraction, and \<open>-0\<close> is not told from
    \<open>0\<close>: a slice and a JSON response treat them alike);
  \<^item> a handler runs from its first statement to its response without another request
    in between;
  \<^item> the messages of the responses are Chinese texts in the source and are
    constructors of \<open>message\<close> here; \<open>console.warn\<close> and \<open>console.error\<close> lines
    are collected in the state, \<open>console.log\<close> lines are dropped.
\<close>

subsection \<open>JavaScript values and built-ins\<close>

datatype json =
    JNull
  | JBool bool
  | JNum int
  | JStr string
  | JArr "json list"
  | JObj "(string \<times> json) list"

text \<open>What the query parser makes of a parameter: a string, or an array or an object of
  such values (for \<open>?a=1&a=2\<close> and \<open>?a[k]=1\<close>).\<close>

datatype qvalue =
    QStr string
  | QArr "qvalue list"
  | QObj "(string \<times> qvalue) list"

text \<open>\<open>ToString\<close> (and so \<open>ToPropertyKey\<close>) of a query value: an array is its elements
  joined by commas, an object is \<open>[object Object]\<close>.\<close>

fun join_comma :: "string list \<Rightarrow> string" where
  "join_comma [] = []"
| "join_comma [x] = x"
| "join_comma (x # y # ys) = x @ '','' @ join_comma (y # ys)"

fun to_string :: "qvalue \<Rightarrow> string" where
  "to_string (QStr s) = s"
| "to_string (QArr xs) = join_comma (map to_string xs)"
| "to_string (QObj kvs) = ''[object Object]''"

text \<open>\<open>!x\<close> for a parameter of the query string: only a missing parameter and the empty
  string are falsy. \<open>query_key x\<close> is \<open>None\<close> when \<open>!x\<close> holds and the property key
  that \<open>x\<close> stands for otherwise.\<close>

fun query_key :: "qvalue option \<Rightarrow> string option" where
  "query_key None = None"
| "query_key (Some (QStr s)) = (if s = [] then None else Some s)"
| "query_key (Some v) = Some (to_string v)"

text \<open>\<open>!x\<close> for a parameter that is a string or missing: \<open>given x\<close> is \<open>None\<close> exactly
  when \<open>!x\<close> holds (missing or the empty string).\<close>

fun given :: "string option \<Rightarrow> string option" where
  "given None = None"
| "given (Some s) = (if s = [] then None else Some s)"

text \<open>\<open>x || d\<close>.\<close>

definition or_default :: "string option \<Rightarrow> string \<Rightarrow> string" where
  "or_default x d = (case given x of None \<Rightarrow> d | Some v \<Rightarrow> v)"

text \<open>\<open>s.includes(t)\<close>.\<close>

definition includes_str :: "string \<Rightarrow> string \<Rightarrow> bool" where
  "includes_str s t = sublist t s"

text \<open>\<open>xs.findIndex(P)\<close>, with \<open>None\<close> for \<open>-1\<close>.\<close>

fun findIndex :: "('a \<Rightarrow> bool) \<Rightarrow> 'a list \<Rightarrow> nat option" where
  "findIndex P [] = None"
| "findIndex P (x # xs) =
     (if P x then Some 0 else (case findIndex P xs of None \<Rightarrow> None | Some i \<Rightarrow> Some (Suc i)))"

text \<open>\<open>xs.splice(i, 1)\<close>: what is left of \<open>xs\<close>.\<close>

definition splice1 :: "nat \<Rightarrow> 'a list \<Rightarrow> 'a list" where
  "splice1 i xs = take i xs @ drop (Suc i) xs"

text \<open>Numbers. \<open>to_number n\<close> is the double nearest to the integer \<open>n\<close> (ties to the
  even significand, an infinity from \<open>2^1024\<close> on): the value of an arithmetic operation
  is its exact result, rounded.\<close>

datatype number = NaN | Finite int | PosInfinity | NegInfinity

function bit_len :: "int \<Rightarrow> nat" where
  "bit_len n = (if n \<le> 0 then 0 else Suc (bit_len (n div 2)))"
  by pat_completeness auto
termination
  by (relation "measure nat") auto

declare bit_len.simps [simp del]

definition round_magnitude :: "int \<Rightarrow> int option" where
  "round_magnitude m =
     (if m < 2 ^ 53 then Some m
      else
        let sh = bit_len m - 53;
            q = m div 2 ^ sh;
            r = m mod 2 ^ sh;
            half = 2 ^ (sh - 1);
            q' = (if half < r \<or> (r = half \<and> odd q) then q + 1 else q);
            v = q' * 2 ^ sh
        in if v < 2 ^ 1024 then Some v else None)"

definition to_number :: "int \<Rightarrow> number" where
  "to_number n =
     (case round_magnitude \<bar>n\<bar> of
        None \<Rightarrow> if n < 0 then NegInfinity else PosInfinity
      | Some v \<Rightarrow> Finite (if n < 0 then - v else v))"

fun num_neg :: "number \<Rightarrow> number" where
  "num_neg NaN = NaN"
| "num_neg (Finite a) = Finite (- a)"
| "num_neg PosInfinity = NegInfinity"
| "num_neg NegInfinity = PosInfinity"

fun num_add :: "number \<Rightarrow> number \<Rightarrow> number" where
  "num_add NaN _ = NaN"
| "num_add _ NaN = NaN"
| "num_add (Finite a) (Finite b) = to_number (a + b)"
| "num_add (Finite a) PosInfinity = PosInfinity"
| "num_add (Finite a) NegInfinity = NegInfinity"
| "num_add PosInfinity (Finite b) = PosInfinity"
| "num_add PosInfinity PosInfinity = PosInfinity"
| "num_add PosInfinity NegInfinity = NaN"
| "num_add NegInfinity (Finite b) = NegInfinity"
| "num_add NegInfinity PosInfinity = NaN"
| "num_add NegInfinity NegInfinity = NegInfinity"

definition num_sub :: "number \<Rightarrow> number \<Rightarrow> number" where
  "num_sub a b = num_add a (num_neg b)"

fun num_sgn :: "number \<Rightarrow> int" where
  "num_sgn NaN = 0"
| "num_sgn (Finite a) = sgn a"
| "num_sgn PosInfinity = 1"
| "num_sgn NegInfinity = - 1"

fun num_mul :: "number \<Rightarrow> number \<Rightarrow> number" where
  "num_mul NaN _ = NaN"
| "num_mul _ NaN = NaN"
| "num_mul (Finite a) (Finite b) = to_number (a * b)"
| "num_mul a b =
     (if num_sgn a * num_sgn b = 0 then NaN
      else if 0 < num_sgn a * num_sgn b then PosInfinity else NegInfinity)"

text \<open>\<open>parseInt(s)\<close> with no radix: leading white space (the code points of
  \<open>WhiteSpace\<close> and \<open>LineTerminator\<close>, in UTF-8) is skipped, a sign is read, the prefix
  \<open>0x\<close> switches to radix 16, and the longest run of digits is the value, as a double;
  no digit at all gives \<open>NaN\<close>.\<close>

definition is_ws1 :: "char \<Rightarrow> bool" where
  "is_ws1 a \<longleftrightarrow> (of_char a :: nat) \<in> {9, 10, 11, 12, 13, 32}"

definition is_ws2 :: "char \<Rightarrow> char \<Rightarrow> bool" where
  "is_ws2 a b \<longleftrightarrow> (of_char a :: nat) = 0xC2 \<and> (of_char b :: nat) = 0xA0"

definition is_ws3 :: "char \<Rightarrow> char \<Rightarrow> char \<Rightarrow> bool" where
  "is_ws3 a b c \<longleftrightarrow>
     (let x = (of_char a :: nat); y = (of_char b :: nat); z = (of_char c :: nat) in
      (x = 0xE1 \<and> y = 0x9A \<and> z = 0x80)
      \<or> (x = 0xE2 \<and> y = 0x80 \<and> (0x80 \<le> z \<and> z \<le> 0x8A \<or> z = 0xA8 \<or> z = 0xA9 \<or> z = 0xAF))
      \<or> (x = 0xE2 \<and> y = 0x81 \<and> z = 0x9F)
      \<or> (x = 0xE3 \<and> y = 0x80 \<and> z = 0x80)
      \<or> (x = 0xEF \<and> y = 0xBB \<and> z = 0xBF))"

fun skip_white_space :: "string \<Rightarrow> string" where
  "skip_white_space (a # b # c # s) =
     (if is_ws1 a then skip_white_space (b # c # s)
      else if is_ws2 a b then skip_white_space (c # s)
      else if is_ws3 a b c then skip_white_space s
      else a # b # c # s)"
| "skip_white_space [a, b] =
     (if is_ws1 a then skip_white_space [b] else if is_ws2 a b then [] else [a, b])"
| "skip_white_space [a] = (if is_ws1 a then [] else [a])"
| "skip_white_space [] = []"

definition digit_value :: "char \<Rightarrow> int option" where
  "digit_value c =
     (let n = (of_char c :: int) in
      if 48 \<le> n \<and> n \<le> 57 then Some (n - 48)
      else if 97 \<le> n \<and> n \<le> 122 then Some (n - 87)
      else if 65 \<le> n \<and> n \<le> 90 then Some (n - 55)
      else None)"

definition is_digit :: "int \<Rightarrow> char \<Rightarrow> bool" where
  "is_digit R c = (case digit_value c of None \<Rightarrow> False | Some d \<Rightarrow> d < R)"

fun digits_value :: "int \<Rightarrow> int \<Rightarrow> string \<Rightarrow> int" where
  "digits_value R acc [] = acc"
| "digits_value R acc (c # cs) =
     digits_value R (case digit_value c of None \<Rightarrow> acc | Some d \<Rightarrow> acc * R + d) cs"

definition parseInt :: "string \<Rightarrow> number" where
  "parseInt inputString =
     (let S = skip_white_space inputString;
          sign = (case S of c # _ \<Rightarrow> if c = CHR ''-'' then - 1 else 1 | [] \<Rightarrow> (1::int));
          S1 = (case S of c # cs \<Rightarrow> if c = CHR ''+'' \<or> c = CHR ''-'' then cs else S | [] \<Rightarrow> S);
          hex = (take 2 S1 = ''0x'' \<or> take 2 S1 = ''0X'');
          R = (if hex then 16 else 10);
          S2 = (if hex then drop 2 S1 else S1);
          Z = takeWhile (is_digit R) S2
      in if Z = [] then NaN else to_number (sign * digits_value R 0 Z))"

text \<open>\<open>xs.slice(start, fin)\<close>: \<open>NaN\<close> counts as 0, a negative index counts from the
  end, and both are clamped to the length.\<close>

definition relative_index :: "nat \<Rightarrow> number \<Rightarrow> nat" where
  "relative_index len i =
     (case i of
        NaN \<Rightarrow> 0
      | NegInfinity \<Rightarrow> 0
      | PosInfinity \<Rightarrow> len
      | Finite r \<Rightarrow> if r < 0 then nat (max (int len + r) 0) else min (nat r) len)"

definition slice :: "'a list \<Rightarrow> number \<Rightarrow> number \<Rightarrow> 'a list" where
  "slice xs start fin =
     (let k = relative_index (length xs) start;
          final = relative_index (length xs) fin
      in take (final - k) (drop k xs))"

subsection \<open>The data model\<close>

datatype status = Draft | Ready | Submitted

fun status_name :: "status \<Rightarrow> string" where
  "status_name Draft = ''draft''"
| "status_name Ready = ''ready''"
| "status_name Submitted = ''submitted''"

record photo =
  photo_id :: string
  url :: string
  filename :: string
  selected :: bool

record session =
  customerName :: string
  photos :: "photo list"
  status :: status
  createdAt :: int

record portfolio_item =
  item_id :: string
  title :: string
  description :: string
  category :: string
  item_url :: string
  item_filename :: string
  item_createdAt :: int

type_synonym sessions = "(string \<times> session) list"

record db =
  sessions :: sessions
  portfolioItems :: "portfolio_item list"

datatype log =
    WarnFileMissing string string
  | ErrorUnlinkFailed string string
  | ErrorSaveFailed
  | ErrorLoadFailed
  | ErrorQRCodeFailed

record server =
  dbData :: db
  dbFile :: "db option"
  console :: "log list"

text \<open>What a handler obtains from its runtime while it serves one request: the values of
  its calls of \<open>uuidv4()\<close> and \<open>new Date()\<close> (by call number), the outcome of
  \<open>fs.unlink\<close> for a directory and file name, whether \<open>fs.readFile\<close> and
  \<open>fs.writeFile\<close> of \<open>db.json\<close> and \<open>qrcode.toFile\<close> succeed, and
  \<open>String.prototype.toLowerCase\<close>.\<close>

datatype unlink_result = Unlinked | ENOENT | EOTHER

record env =
  uuidv4 :: "nat \<Rightarrow> string"
  newDate :: "nat \<Rightarrow> int"
  unlink :: "string \<Rightarrow> string \<Rightarrow> unlink_result"
  readFile_ok :: bool
  writeFile_ok :: bool
  toFile_ok :: bool
  toLowerCase :: "string \<Rightarrow> string"

subsection \<open>Constants\<close>

definition DEBUG_MODE :: bool where
  "DEBUG_MODE = True"

definition BASE_URL :: string where
  "BASE_URL = (if DEBUG_MODE then ''http://localhost:3000'' else ''http://47.107.129.145'')"

definition UPLOAD_DIR :: string where
  "UPLOAD_DIR = ''uploads''"

definition PORTFOLIO_DIR :: string where
  "PORTFOLIO_DIR = ''portfolio_uploads''"

text \<open>The default customer name, four Chinese characters ("unknown customer"), as the
  bytes of its UTF-8 encoding.\<close>

definition UNKNOWN_CUSTOMER :: string where
  "UNKNOWN_CUSTOMER =
     [CHR 0xE6, CHR 0x9C, CHR 0xAA, CHR 0xE7, CHR 0x9F, CHR 0xA5,
      CHR 0xE5, CHR 0xAE, CHR 0xA2, CHR 0xE6, CHR 0x88, CHR 0xB7]"

text \<open>The default title ("work") and the default category ("uncategorised") of a
  portfolio item.\<close>

definition DEFAULT_TITLE :: string where
  "DEFAULT_TITLE = [CHR 0xE4, CHR 0xBD, CHR 0x9C, CHR 0xE5, CHR 0x93, CHR 0x81]"

definition DEFAULT_CATEGORY :: string where
  "DEFAULT_CATEGORY =
     [CHR 0xE6, CHR 0x9C, CHR 0xAA, CHR 0xE5, CHR 0x88, CHR 0x86, CHR 0xE7, CHR 0xB1, CHR 0xBB]"

subsection \<open>Properties of the sessions object\<close>

text \<open>\<open>Object.keys\<close> lists the array indices (canonical decimal numerals below
  \<open>2^32 - 1\<close>) first, in ascending order, then the other names in the order of their
  creation. An assignment to an existing property keeps its place.\<close>

definition is_array_index :: "string \<Rightarrow> bool" where
  "is_array_index k \<longleftrightarrow>
     k \<noteq> [] \<and> list_all (is_digit 10) k \<and> (k = ''0'' \<or> take 1 k \<noteq> ''0'')
     \<and> digits_value 10 0 k < 2 ^ 32 - 1"

fun insert_index :: "string \<Rightarrow> 'v \<Rightarrow> (string \<times> 'v) list \<Rightarrow> (string \<times> 'v) list" where
  "insert_index k v [] = [(k, v)]"
| "insert_index k v ((k', v') # kvs) =
     (if is_array_index k' \<and> digits_value 10 0 k' < digits_value 10 0 k
      then (k', v') # insert_index k v kvs
      else (k, v) # (k', v') # kvs)"

text \<open>A read \<open>obj[k]\<close> of a plain object: an own property shadows the members that
  every plain object inherits from \<open>Object.prototype\<close>. An inherited member is a
  function (\<open>__proto__\<close> reads as the prototype object): truthy, and a read of any field
  the code asks of it (\<open>photos\<close>, \<open>status\<close>, \<open>customerName\<close>) is \<open>undefined\<close>.\<close>

datatype 'v property = Own 'v | Inherited | Undefined

definition Object_prototype_names :: "string list" where
  "Object_prototype_names =
     [''constructor'', ''__proto__'', ''hasOwnProperty'', ''isPrototypeOf'',
      ''propertyIsEnumerable'', ''toLocaleString'', ''toString'', ''valueOf'',
      ''__defineGetter__'', ''__defineSetter__'', ''__lookupGetter__'', ''__lookupSetter__'']"

definition get_property :: "(string \<times> 'v) list \<Rightarrow> string \<Rightarrow> 'v property" where
  "get_property kvs k =
     (case map_of kvs k of
        Some v \<Rightarrow> Own v
      | None \<Rightarrow> if k \<in> set Object_prototype_names then Inherited else Undefined)"

definition update_property :: "string \<Rightarrow> ('v \<Rightarrow> 'v) \<Rightarrow> (string \<times> 'v) list \<Rightarrow> (string \<times> 'v) list" where
  "update_property k f kvs = map (\<lambda>(k', v'). if k' = k then (k', f v') else (k', v')) kvs"

text \<open>An assignment \<open>obj[k] = v\<close>. The code assigns a whole session only under an id for
  which the read was falsy, or under a fresh \<open>uuidv4()\<close>; the assignment of a new
  property \<open>__proto__\<close>, which would replace the prototype instead, does not occur.\<close>

definition set_property :: "string \<Rightarrow> 'v \<Rightarrow> (string \<times> 'v) list \<Rightarrow> (string \<times> 'v) list" where
  "set_property k v kvs =
     (if map_of kvs k \<noteq> None then update_property k (\<lambda>_. v) kvs
      else if is_array_index k then insert_index k v kvs
      else kvs @ [(k, v)])"

definition delete_property :: "string \<Rightarrow> (string \<times> 'v) list \<Rightarrow> (string \<times> 'v) list" where
  "delete_property k kvs = filter (\<lambda>(k', _). k' \<noteq> k) kvs"

subsection \<open>Persistence\<close>

text \<open>\<open>saveData\<close> writes the whole document; a failed write is caught and logged.\<close>

definition saveData :: "env \<Rightarrow> server \<Rightarrow> server" where
  "saveData e s =
     (if writeFile_ok e then s\<lparr>dbFile := Some (dbData s)\<rparr>
      else s\<lparr>console := console s @ [ErrorSaveFailed]\<rparr>)"

text \<open>\<open>loadData\<close> reads the document that \<open>saveData\<close> wrote. Without a file it starts
  from the empty document and writes it; when the file cannot be read it starts from the
  empty document and leaves the file alone.\<close>

definition loadData :: "env \<Rightarrow> server \<Rightarrow> server" where
  "loadData e s =
     (case dbFile s of
        None \<Rightarrow> saveData e (s\<lparr>dbData := \<lparr>sessions = [], portfolioItems = []\<rparr>\<rparr>)
      | Some d \<Rightarrow>
          if readFile_ok e then s\<lparr>dbData := d\<rparr>
          else s\<lparr>dbData := \<lparr>sessions = [], portfolioItems = []\<rparr>,
                 console := console s @ [ErrorLoadFailed]\<rparr>)"

definition createNewSession :: "int \<Rightarrow> string \<Rightarrow> string \<Rightarrow> db \<Rightarrow> db" where
  "createNewSession t sessionId name d =
     d\<lparr>sessions := set_property sessionId
          \<lparr>customerName = name, photos = [], status = Draft, createdAt = t\<rparr> (sessions d)\<rparr>"

text \<open>\<open>try { await fs.unlink(filePath) } catch (err) { ... }\<close>: every outcome ends in a
  log line at most.\<close>

definition try_unlink :: "env \<Rightarrow> string \<Rightarrow> string \<Rightarrow> log list" where
  "try_unlink e dir name =
     (case unlink e dir name of
        Unlinked \<Rightarrow> []
      | ENOENT \<Rightarrow> [WarnFileMissing dir name]
      | EOTHER \<Rightarrow> [ErrorUnlinkFailed dir name])"

subsection \<open>Responses\<close>

text \<open>\<open>Error n m\<close> is \<open>res.status(n).json({code: 1, message: m})\<close>; \<open>ThrowsTypeError\<close>
  is a handler that throws before it responds (a read of a field of \<open>undefined\<close>, or a
  call of a method a value does not have); every other constructor is a
  \<open>res.json({code: 0, ...})\<close>, sent with status 200. In the words of the specification,
  404 is NotFound, 403 is Forbidden, 400 is BadRequest (and InvalidState, for a session
  without photos) and 500 is Internal. In a JSON response \<open>NaN\<close> and the infinities are
  written \<open>null\<close>.\<close>

datatype message =
    NoFileReceived
  | SessionNotFound
  | PhotoNotInSession
  | NoPhotosCannotFinish
  | InvalidCodeOrNoSession
  | NotReadyYet
  | SelectedIdsMustBeArray
  | SessionIdAndPageRequired
  | NoSessionOrNoPhotos
  | QRCodeFailed
  | ItemNotFound

record summary =
  sum_id :: string
  sum_customerName :: string
  sum_status :: status
  photoCount :: nat
  sum_createdAt :: int

record photo_view =
  view_id :: string
  view_url :: string
  view_selected :: bool

datatype response =
    Error nat message
  | UploadOk string string string
  | PhotoDeleted
  | SessionDeleted
  | SessionFinished
  | SessionsOk "summary list" nat number number
  | PhotosOk "photo_view list"
  | SelectionSubmitted
  | QRCodeOk string
  | PortfolioUploadOk "(string \<times> string) list"
  | PortfolioOk "portfolio_item list"
  | ItemDeleted
  | ThrowsTypeError

text \<open>The status the handler itself sends, if it sends one.\<close>

fun http_status :: "response \<Rightarrow> nat option" where
  "http_status (Error n m) = Some n"
| "http_status ThrowsTypeError = None"
| "http_status _ = Some 200"

subsection \<open>Sessions and photos\<close>

text \<open>\<open>POST /upload\<close>, with \<open>req.file.filename\<close>, \<open>req.body.sessionId\<close> and
  \<open>req.body.customerName\<close>. The first \<open>uuidv4()\<close> is the photo id, the second (if any)
  the session id. The line that pushes the photo reads \<open>dbData.sessions[currentSessionId]\<close>
  again and throws when what it finds has no \<open>photos\<close>.\<close>

definition POST_upload ::
  "env \<Rightarrow> string option \<Rightarrow> string option \<Rightarrow> string option \<Rightarrow> server \<Rightarrow> response \<times> server" where
  "POST_upload e file sessionId reqCustomerName s =
     (case file of
        None \<Rightarrow> (Error 400 NoFileReceived, s)
      | Some fname \<Rightarrow>
          let photoId = uuidv4 e 0;
              name = or_default reqCustomerName UNKNOWN_CUSTOMER;
              (currentSessionId, d) =
                (case given sessionId of
                   None \<Rightarrow> (uuidv4 e 1, createNewSession (newDate e 0) (uuidv4 e 1) name (dbData s))
                 | Some sid \<Rightarrow>
                     (case get_property (sessions (dbData s)) sid of
                        Undefined \<Rightarrow> (sid, createNewSession (newDate e 0) sid name (dbData s))
                      | Inherited \<Rightarrow> (sid, dbData s)
                      | Own x \<Rightarrow>
                          (sid,
                           if name \<noteq> [] \<and> customerName x = UNKNOWN_CUSTOMER
                           then (dbData s)\<lparr>sessions :=
                                  update_property sid (\<lambda>x. x\<lparr>customerName := name\<rparr>)
                                    (sessions (dbData s))\<rparr>
                           else dbData s)));
              photoUrl = BASE_URL @ ''/uploads/'' @ fname
          in case get_property (sessions d) currentSessionId of
               Own x \<Rightarrow>
                 (UploadOk photoId photoUrl currentSessionId,
                  saveData e (s\<lparr>dbData := d\<lparr>sessions :=
                    update_property currentSessionId
                      (\<lambda>x. x\<lparr>photos := photos x @
                         [\<lparr>photo_id = photoId, url = photoUrl, filename = fname, selected = False\<rparr>]\<rparr>)
                      (sessions d)\<rparr>\<rparr>))
             | _ \<Rightarrow> (ThrowsTypeError, s\<lparr>dbData := d\<rparr>))"

text \<open>\<open>DELETE /photo/:sessionId/:photoId\<close>.\<close>

definition DELETE_photo :: "env \<Rightarrow> string \<Rightarrow> string \<Rightarrow> server \<Rightarrow> response \<times> server" where
  "DELETE_photo e sessionId photoId s =
     (case get_property (sessions (dbData s)) sessionId of
        Undefined \<Rightarrow> (Error 404 SessionNotFound, s)
      | Inherited \<Rightarrow> (ThrowsTypeError, s)
      | Own x \<Rightarrow>
          (case findIndex (\<lambda>p. photo_id p = photoId) (photos x) of
             None \<Rightarrow> (Error 404 PhotoNotInSession, s)
           | Some photoIndex \<Rightarrow>
               let photoToDelete = photos x ! photoIndex;
                   sessionPhotos = splice1 photoIndex (photos x);
                   ss = update_property sessionId (\<lambda>x. x\<lparr>photos := sessionPhotos\<rparr>)
                          (sessions (dbData s));
                   ss' = (if length sessionPhotos = 0 then delete_property sessionId ss else ss);
                   s' = s\<lparr>dbData := (dbData s)\<lparr>sessions := ss'\<rparr>,
                          console := console s @ try_unlink e UPLOAD_DIR (filename photoToDelete)\<rparr>
               in (PhotoDeleted, saveData e s')))"

text \<open>\<open>DELETE /session/:sessionId\<close>. The unlinks run side by side in the source; their
  log lines are taken in the order of the photos.\<close>

definition DELETE_session :: "env \<Rightarrow> string \<Rightarrow> server \<Rightarrow> response \<times> server" where
  "DELETE_session e sessionId s =
     (case get_property (sessions (dbData s)) sessionId of
        Undefined \<Rightarrow> (Error 404 SessionNotFound, s)
      | Inherited \<Rightarrow> (ThrowsTypeError, s)
      | Own sessionToDelete \<Rightarrow>
          let logs = concat (map (\<lambda>p. try_unlink e UPLOAD_DIR (filename p)) (photos sessionToDelete));
              s' = s\<lparr>dbData := (dbData s)\<lparr>sessions := delete_property sessionId (sessions (dbData s))\<rparr>,
                     console := console s @ logs\<rparr>
          in (SessionDeleted, saveData e s'))"

text \<open>\<open>POST /finishSession\<close>.\<close>

definition POST_finishSession :: "env \<Rightarrow> string option \<Rightarrow> server \<Rightarrow> response \<times> server" where
  "POST_finishSession e sessionId s =
     (case given sessionId of
        None \<Rightarrow> (Error 404 SessionNotFound, s)
      | Some sid \<Rightarrow>
          (case get_property (sessions (dbData s)) sid of
             Undefined \<Rightarrow> (Error 404 SessionNotFound, s)
           | Inherited \<Rightarrow> (ThrowsTypeError, s)
           | Own x \<Rightarrow>
               if length (photos x) = 0 then (Error 400 NoPhotosCannotFinish, s)
               else (SessionFinished,
                     saveData e (s\<lparr>dbData := (dbData s)\<lparr>sessions :=
                       update_property sid (\<lambda>x. x\<lparr>status := Ready\<rparr>) (sessions (dbData s))\<rparr>\<rparr>))))"

text \<open>\<open>GET /sessions\<close>, with the query parameters \<open>status\<close>, \<open>search\<close>, \<open>page\<close> and
  \<open>limit\<close>. A missing \<open>page\<close> is the number 1 and a missing \<open>limit\<close> the number 10;
  \<open>Array.prototype.sort\<close> is stable. A status that is not a string is strictly equal to
  no session's status; a search that is not a string has no \<open>toLowerCase\<close>, and the
  handler throws.\<close>

definition summarize :: "string \<times> session \<Rightarrow> summary" where
  "summarize kv =
     \<lparr>sum_id = fst kv, sum_customerName = customerName (snd kv), sum_status = status (snd kv),
      photoCount = length (photos (snd kv)), sum_createdAt = createdAt (snd kv)\<rparr>"

definition filter_status :: "qvalue option \<Rightarrow> summary list \<Rightarrow> summary list" where
  "filter_status st xs =
     (case query_key st of
        None \<Rightarrow> xs
      | Some _ \<Rightarrow>
          if st \<noteq> Some (QStr ''all'')
          then filter (\<lambda>x. Some (QStr (status_name (sum_status x))) = st) xs
          else xs)"

definition filter_search :: "env \<Rightarrow> string option \<Rightarrow> summary list \<Rightarrow> summary list" where
  "filter_search e search xs =
     (case given search of
        None \<Rightarrow> xs
      | Some v \<Rightarrow>
          let lowerCaseSearch = toLowerCase e v
          in filter (\<lambda>x. includes_str (toLowerCase e (sum_id x)) lowerCaseSearch
                        \<or> includes_str (toLowerCase e (sum_customerName x)) lowerCaseSearch) xs)"

definition parse_param :: "int \<Rightarrow> qvalue option \<Rightarrow> number" where
  "parse_param dflt p = (case p of None \<Rightarrow> Finite dflt | Some v \<Rightarrow> parseInt (to_string v))"

definition filteredSessions :: "env \<Rightarrow> qvalue option \<Rightarrow> string option \<Rightarrow> server \<Rightarrow> summary list" where
  "filteredSessions e st search s =
     sort_key (\<lambda>x. - sum_createdAt x)
       (filter_search e search (filter_status st (map summarize (sessions (dbData s)))))"

definition paginatedSessions ::
  "env \<Rightarrow> qvalue option \<Rightarrow> string option \<Rightarrow> qvalue option \<Rightarrow> qvalue option \<Rightarrow> server
     \<Rightarrow> summary list" where
  "paginatedSessions e st search page limit s =
     (let startIndex = num_mul (num_sub (parse_param 1 page) (Finite 1)) (parse_param 10 limit);
          endIndex = num_add startIndex (parse_param 10 limit)
      in slice (filteredSessions e st search s) startIndex endIndex)"

text \<open>The search text the filter works with: \<open>None\<close> when \<open>search.toLowerCase()\<close>
  throws.\<close>

fun search_text :: "qvalue option \<Rightarrow> string option option" where
  "search_text None = Some None"
| "search_text (Some (QStr v)) = Some (Some v)"
| "search_text (Some _) = None"

definition GET_sessions ::
  "env \<Rightarrow> qvalue option \<Rightarrow> qvalue option \<Rightarrow> qvalue option \<Rightarrow> qvalue option \<Rightarrow> server
     \<Rightarrow> response \<times> server" where
  "GET_sessions e st search page limit s =
     (case search_text search of
        None \<Rightarrow> (ThrowsTypeError, s)
      | Some text \<Rightarrow>
          (SessionsOk (paginatedSessions e st text page limit s)
             (length (filteredSessions e st text s)) (parse_param 1 page) (parse_param 10 limit),
           s))"

text \<open>\<open>GET /photos\<close>, with the query parameter \<open>sessionId\<close> and the header
  \<open>x-client-type\<close>. The status of an inherited member is \<open>undefined\<close>, not \<open>draft\<close>.\<close>

definition GET_photos :: "qvalue option \<Rightarrow> string option \<Rightarrow> server \<Rightarrow> response \<times> server" where
  "GET_photos sessionId clientType s =
     (case query_key sessionId of
        None \<Rightarrow> (Error 404 InvalidCodeOrNoSession, s)
      | Some sid \<Rightarrow>
          (case get_property (sessions (dbData s)) sid of
             Undefined \<Rightarrow> (Error 404 InvalidCodeOrNoSession, s)
           | Inherited \<Rightarrow> (ThrowsTypeError, s)
           | Own x \<Rightarrow>
               let isPhotographer = (clientType = Some ''photographer'')
               in if status x = Draft \<and> \<not> isPhotographer then (Error 403 NotReadyYet, s)
                  else (PhotosOk (map (\<lambda>p. \<lparr>view_id = photo_id p, view_url = url p,
                                              view_selected = selected p\<rparr>) (photos x)), s)))"

text \<open>\<open>POST /submitSelection\<close>, with \<open>req.body.sessionId\<close> and
  \<open>req.body.selectedPhotoIds\<close> (any JSON value, or missing).\<close>

fun isArray :: "json option \<Rightarrow> bool" where
  "isArray (Some (JArr xs)) = True"
| "isArray _ = False"

fun elements :: "json option \<Rightarrow> json list" where
  "elements (Some (JArr xs)) = xs"
| "elements _ = []"

definition POST_submitSelection ::
  "env \<Rightarrow> string option \<Rightarrow> json option \<Rightarrow> server \<Rightarrow> response \<times> server" where
  "POST_submitSelection e sessionId selectedPhotoIds s =
     (case given sessionId of
        None \<Rightarrow> (Error 404 InvalidCodeOrNoSession, s)
      | Some sid \<Rightarrow>
          (case get_property (sessions (dbData s)) sid of
             Undefined \<Rightarrow> (Error 404 InvalidCodeOrNoSession, s)
           | Inherited \<Rightarrow>
               if \<not> isArray selectedPhotoIds then (Error 400 SelectedIdsMustBeArray, s)
               else (ThrowsTypeError, s)
           | Own x \<Rightarrow>
               if \<not> isArray selectedPhotoIds then (Error 400 SelectedIdsMustBeArray, s)
               else (SelectionSubmitted,
                     saveData e (s\<lparr>dbData := (dbData s)\<lparr>sessions :=
                       update_property sid
                         (\<lambda>x. x\<lparr>photos :=
                                  map (\<lambda>p. p\<lparr>selected :=
                                         JStr (photo_id p) \<in> set (elements selectedPhotoIds)\<rparr>)
                                    (photos x),
                                status := Submitted\<rparr>)
                         (sessions (dbData s))\<rparr>\<rparr>))))"

text \<open>\<open>POST /generateQRCode\<close>, with \<open>req.body.sessionId\<close> and \<open>req.body.page\<close>.\<close>

definition POST_generateQRCode ::
  "env \<Rightarrow> string option \<Rightarrow> string option \<Rightarrow> server \<Rightarrow> response \<times> server" where
  "POST_generateQRCode e sessionId page s =
     (case (given sessionId, given page) of
        (Some sid, Some pg) \<Rightarrow>
          (case get_property (sessions (dbData s)) sid of
             Undefined \<Rightarrow> (Error 400 NoSessionOrNoPhotos, s)
           | Inherited \<Rightarrow> (ThrowsTypeError, s)
           | Own x \<Rightarrow>
               if length (photos x) = 0 then (Error 400 NoSessionOrNoPhotos, s)
               else
                 let qrCodeFileName = ''qrcode-'' @ sid @ ''.png'';
                     qrCodeUrl = BASE_URL @ ''/qrcodes/'' @ qrCodeFileName
                 in if toFile_ok e then (QRCodeOk qrCodeUrl, s)
                    else (Error 500 QRCodeFailed, s\<lparr>console := console s @ [ErrorQRCodeFailed]\<rparr>))
      | _ \<Rightarrow> (Error 400 SessionIdAndPageRequired, s))"

subsection \<open>The portfolio\<close>

text \<open>\<open>POST /portfolio/upload\<close>, with the file names of \<open>req.files\<close> and
  \<open>req.body.category\<close>. The loop over the files makes one \<open>uuidv4()\<close> and one
  \<open>new Date()\<close> call per file.\<close>

fun add_items ::
  "env \<Rightarrow> string \<Rightarrow> nat \<Rightarrow> string list \<Rightarrow> portfolio_item list \<times> (string \<times> string) list" where
  "add_items e cat i [] = ([], [])"
| "add_items e cat i (f # fs) =
     (let itemId = uuidv4 e i;
          itemUrl = BASE_URL @ ''/portfolio_uploads/'' @ f;
          item = \<lparr>item_id = itemId, title = DEFAULT_TITLE, description = [], category = cat,
                  item_url = itemUrl, item_filename = f, item_createdAt = newDate e i\<rparr>;
          (items, uploadedItems) = add_items e cat (Suc i) fs
      in (item # items, (itemId, itemUrl) # uploadedItems))"

definition POST_portfolio_upload ::
  "env \<Rightarrow> string list \<Rightarrow> string option \<Rightarrow> server \<Rightarrow> response \<times> server" where
  "POST_portfolio_upload e files cat s =
     (if length files = 0 then (Error 400 NoFileReceived, s)
      else
        let (items, uploadedItems) = add_items e (or_default cat DEFAULT_CATEGORY) 0 files
        in (PortfolioUploadOk uploadedItems,
            saveData e (s\<lparr>dbData := (dbData s)\<lparr>portfolioItems :=
              portfolioItems (dbData s) @ items\<rparr>\<rparr>)))"

text \<open>\<open>GET /portfolio\<close>. Without a category filter the handler sorts
  \<open>dbData.portfolioItems\<close> itself, in place; with one it sorts the filtered copy.\<close>

definition GET_portfolio :: "string option \<Rightarrow> server \<Rightarrow> response \<times> server" where
  "GET_portfolio cat s =
     (let unfiltered =
            (let sorted_items = sort_key (\<lambda>i. - item_createdAt i) (portfolioItems (dbData s))
             in (PortfolioOk sorted_items,
                 s\<lparr>dbData := (dbData s)\<lparr>portfolioItems := sorted_items\<rparr>\<rparr>))
      in case given cat of
           None \<Rightarrow> unfiltered
         | Some c \<Rightarrow>
             if c \<noteq> ''all''
             then (PortfolioOk (sort_key (\<lambda>i. - item_createdAt i)
                     (filter (\<lambda>i. category i = c) (portfolioItems (dbData s)))), s)
             else unfiltered)"

text \<open>\<open>DELETE /portfolio/:id\<close>.\<close>

definition DELETE_portfolio :: "env \<Rightarrow> string \<Rightarrow> server \<Rightarrow> response \<times> server" where
  "DELETE_portfolio e itemId s =
     (case findIndex (\<lambda>i. item_id i = itemId) (portfolioItems (dbData s)) of
        None \<Rightarrow> (Error 404 ItemNotFound, s)
      | Some itemIndex \<Rightarrow>
          let itemToDelete = portfolioItems (dbData s) ! itemIndex;
              s' = s\<lparr>dbData := (dbData s)\<lparr>portfolioItems :=
                       splice1 itemIndex (portfolioItems (dbData s))\<rparr>,
                     console := console s @ try_unlink e PORTFOLIO_DIR (item_filename itemToDelete)\<rparr>
          in (ItemDeleted, saveData e s'))"

subsection \<open>The server as a transition system\<close>

datatype request =
    Upload "string option" "string option" "string option"
  | DeletePhoto string string
  | DeleteSession string
  | FinishSession "string option"
  | ListSessions "qvalue option" "qvalue option" "qvalue option" "qvalue option"
  | ListPhotos "qvalue option" "string option"
  | SubmitSelection "string option" "json option"
  | GenerateQRCode "string option" "string option"
  | PortfolioUpload "string list" "string option"
  | ListPortfolio "string option"
  | DeletePortfolioItem string

fun step :: "env \<Rightarrow> request \<Rightarrow> server \<Rightarrow> response \<times> server" where
  "step e (Upload file sessionId name) s = POST_upload e file sessionId name s"
| "step e (DeletePhoto sessionId photoId) s = DELETE_photo e sessionId photoId s"
| "step e (DeleteSession sessionId) s = DELETE_session e sessionId s"
| "step e (FinishSession sessionId) s = POST_finishSession e sessionId s"
| "step e (ListSessions st search page limit) s = GET_sessions e st search page limit s"
| "step e (ListPhotos sessionId clientType) s = GET_photos sessionId clientType s"
| "step e (SubmitSelection sessionId ids) s = POST_submitSelection e sessionId ids s"
| "step e (GenerateQRCode sessionId page) s = POST_generateQRCode e sessionId page s"
| "step e (PortfolioUpload files cat) s = POST_portfolio_upload e files cat s"
| "step e (ListPortfolio cat) s = GET_portfolio cat s"
| "step e (DeletePortfolioItem itemId) s = DELETE_portfolio e itemId s"

text \<open>The process starts with the empty document in memory and no \<open>db.json\<close>; it
  runs \<open>loadData\<close> when it starts (and again whenever it is started anew) and then
  serves requests one after the other. \<open>uuidv4()\<close> never returns the empty string.\<close>

definition initial :: server where
  "initial = \<lparr>dbData = \<lparr>sessions = [], portfolioItems = []\<rparr>, dbFile = None, console = []\<rparr>"

inductive reachable :: "server \<Rightarrow> bool" where
  reachable_initial: "reachable initial"
| reachable_start: "reachable s \<Longrightarrow> reachable (loadData e s)"
| reachable_step: "reachable s \<Longrightarrow> uuidv4 e 1 \<noteq> [] \<Longrightarrow> reachable (snd (step e r s))"

text \<open>The lookup of a session in a state.\<close>

abbreviation session_of :: "server \<Rightarrow> string \<Rightarrow> session option" where
  "session_of s sid \<equiv> map_of (sessions (dbData s)) sid"

subsection \<open>A sample run\<close>

text \<open>A runtime and a document on which the handlers are run below: session \<open>s1\<close> was
  submitted with its first photo selected, session \<open>s2\<close> is a draft under the default
  customer name, and \<open>s3\<close> is ready.\<close>

definition ascii_lower :: "char \<Rightarrow> char" where
  "ascii_lower c =
     (let n = (of_char c :: nat) in if 65 \<le> n \<and> n \<le> 90 then char_of (n + 32) else c)"

definition sample_env :: env where
  "sample_env =
     \<lparr>uuidv4 = (\<lambda>n. if n = 0 then ''photo-new'' else ''session-new''),
      newDate = (\<lambda>n. 4000),
      unlink = (\<lambda>dir name. if name = ''a.jpg'' then Unlinked else if name = ''b.jpg'' then ENOENT else EOTHER),
      readFile_ok = True,
      writeFile_ok = True,
      toFile_ok = True,
      toLowerCase = map ascii_lower\<rparr>"

definition photo_a :: photo where
  "photo_a = \<lparr>photo_id = ''pa'', url = ''http://localhost:3000/uploads/a.jpg'',
               filename = ''a.jpg'', selected = True\<rparr>"

definition photo_b :: photo where
  "photo_b = \<lparr>photo_id = ''pb'', url = ''http://localhost:3000/uploads/b.jpg'',
               filename = ''b.jpg'', selected = False\<rparr>"

definition photo_c :: photo where
  "photo_c = \<lparr>photo_id = ''pc'', url = ''http://localhost:3000/uploads/c.jpg'',
               filename = ''c.jpg'', selected = False\<rparr>"

definition session1 :: session where
  "session1 = \<lparr>customerName = ''Ann'', photos = [photo_a, photo_b], status = Submitted,
                createdAt = 1000\<rparr>"

definition session2 :: session where
  "session2 = \<lparr>customerName = UNKNOWN_CUSTOMER, photos = [photo_c], status = Draft,
                createdAt = 2000\<rparr>"

definition session3 :: session where
  "session3 = \<lparr>customerName = ''Bob'', photos = [photo_c], status = Ready, createdAt = 3000\<rparr>"

definition sample_item :: portfolio_item where
  "sample_item = \<lparr>item_id = ''i1'', title = DEFAULT_TITLE, description = [],
                   category = ''wedding'', item_url = ''http://localhost:3000/portfolio_uploads/w.jpg'',
                   item_filename = ''w.jpg'', item_createdAt = 500\<rparr>"

definition sample_server :: server where
  "sample_server =
     \<lparr>dbData = \<lparr>sessions = [(''s1'', session1), (''s2'', session2), (''s3'', session3)],
                portfolioItems = [sample_item]\<rparr>,
      dbFile = None, console = []\<rparr>"

text \<open>The state after the first upload into a fresh server.\<close>

definition first_upload :: server where
  "first_upload = snd (step sample_env (Upload (Some ''a.jpg'') None None) initial)"

subsection \<open>Notions used in the statements\<close>

text \<open>A request names no stored session: it carries no session id, or none is stored
  under the id it carries.\<close>

definition absent :: "server \<Rightarrow> string option \<Rightarrow> bool" where
  "absent s sessionId = (case sessionId of None \<Rightarrow> True | Some sid \<Rightarrow> session_of s sid = None)"

text \<open>The same server with other file names in its photo records.\<close>

definition rename_files :: "(photo \<Rightarrow> string) \<Rightarrow> server \<Rightarrow> server" where
  "rename_files g s =
     s\<lparr>dbData := (dbData s)\<lparr>sessions :=
        map (\<lambda>(k, x). (k, x\<lparr>photos := map (\<lambda>p. p\<lparr>filename := g p\<rparr>) (photos x)\<rparr>))
          (sessions (dbData s))\<rparr>\<rparr>"

text \<open>The photo record that \<open>POST /upload\<close> appends for the stored file \<open>fname\<close>.\<close>

definition uploaded_photo :: "env \<Rightarrow> string \<Rightarrow> photo" where
  "uploaded_photo e fname =
     \<lparr>photo_id = uuidv4 e 0, url = BASE_URL @ ''/uploads/'' @ fname, filename = fname,
      selected = False\<rparr>"

text \<open>A well-formed document: the keys of the sessions object are distinct, none is the
  empty string, and every session has a photo. A well-formed server has a well-formed
  document in memory and on disk.\<close>

definition wf_db :: "db \<Rightarrow> bool" where
  "wf_db d \<longleftrightarrow>
     distinct (map fst (sessions d)) \<and> list_all (\<lambda>(k, x). k \<noteq> [] \<and> photos x \<noteq> []) (sessions d)"

definition wf :: "server \<Rightarrow> bool" where
  "wf s \<longleftrightarrow> wf_db (dbData s) \<and> (case dbFile s of None \<Rightarrow> True | Some d \<Rightarrow> wf_db d)"


section \<open>Properties\<close>

subsection \<open>Lookups after an update of the sessions object\<close>

lemma map_of_update_property:
  "map_of (update_property k f kvs) k' =
     (if k' = k then map_option f (map_of kvs k) else map_of kvs k')"
  by (induction kvs) (auto simp: update_property_def)

lemma map_of_delete_property:
  "map_of (delete_property k kvs) k' = (if k' = k then None else map_of kvs k')"
  by (induction kvs) (auto simp: delete_property_def)

lemma map_of_insert_index:
  "map_of (insert_index k v kvs) k' = (if k' = k then Some v else map_of kvs k')"
  by (induction kvs) auto

lemma map_of_set_property:
  "map_of (set_property k v kvs) k' = (if k' = k then Some v else map_of kvs k')"
  by (auto simp: set_property_def map_of_update_property map_of_insert_index map_add_def
      split: option.splits)

lemma update_property_twice:
  "update_property k f (update_property k g kvs) = update_property k (f \<circ> g) kvs"
  by (induction kvs) (auto simp: update_property_def)

lemma findIndex_Some:
  "findIndex P xs = Some i \<Longrightarrow> i < length xs \<and> P (xs ! i)"
  by (induction xs arbitrary: i) (auto split: if_splits option.splits)

lemma findIndex_None: "findIndex P xs = None \<longleftrightarrow> (\<forall>x\<in>set xs. \<not> P x)"
  by (induction xs) (auto split: option.splits)

lemma dbData_saveData: "dbData (saveData e s) = dbData s"
  by (simp add: saveData_def)

lemma dbFile_saveData:
  "dbFile (saveData e s) = (if writeFile_ok e then Some (dbData s) else dbFile s)"
  by (simp add: saveData_def)

subsection \<open>Submitting a selection\<close>

lemma submit_array:
  assumes "given sessionId = Some sid" and "session_of s sid = Some x"
  shows "POST_submitSelection e sessionId (Some (JArr arr)) s =
           (SelectionSubmitted,
            saveData e (s\<lparr>dbData := (dbData s)\<lparr>sessions :=
               update_property sid
                 (\<lambda>x. x\<lparr>photos := map (\<lambda>p. p\<lparr>selected := JStr (photo_id p) \<in> set arr\<rparr>) (photos x),
                        status := Submitted\<rparr>)
                 (sessions (dbData s))\<rparr>\<rparr>))"
  using assms by (simp add: POST_submitSelection_def get_property_def)

text \<open>
  Claim C2. For a stored session and an array \<open>arr\<close> as \<open>selectedPhotoIds\<close>, the call
  succeeds; afterwards a photo of the session is selected exactly when its id is an
  element of \<open>arr\<close> (whatever it was before), the photos are otherwise the same, the
  session is submitted, the other sessions and the portfolio are untouched, and
  \<open>db.json\<close> holds the new document (unless the write failed, which the code only logs).
  When \<open>selectedPhotoIds\<close> is not an array the answer is 400 and the state is the same.
\<close>

theorem submitSelection_overwrites_selection:
  assumes "given sessionId = Some sid" and "session_of s sid = Some x"
  shows "(\<forall>arr. ids = Some (JArr arr) \<longrightarrow>
            (\<exists>s' x'. POST_submitSelection e sessionId ids s = (SelectionSubmitted, s')
               \<and> session_of s' sid = Some x'
               \<and> (\<forall>p \<in> set (photos x'). selected p \<longleftrightarrow> JStr (photo_id p) \<in> set arr)
               \<and> map photo_id (photos x') = map photo_id (photos x)
               \<and> map url (photos x') = map url (photos x)
               \<and> map filename (photos x') = map filename (photos x)
               \<and> status x' = Submitted
               \<and> customerName x' = customerName x \<and> createdAt x' = createdAt x
               \<and> (\<forall>k. k \<noteq> sid \<longrightarrow> session_of s' k = session_of s k)
               \<and> portfolioItems (dbData s') = portfolioItems (dbData s)
               \<and> dbFile s' = (if writeFile_ok e then Some (dbData s') else dbFile s)))
       \<and> (\<not> isArray ids \<longrightarrow>
            POST_submitSelection e sessionId ids s = (Error 400 SelectedIdsMustBeArray, s))"
proof (intro conjI allI impI)
  fix arr assume "ids = Some (JArr arr)"
  then show "\<exists>s' x'. POST_submitSelection e sessionId ids s = (SelectionSubmitted, s')
               \<and> session_of s' sid = Some x'
               \<and> (\<forall>p \<in> set (photos x'). selected p \<longleftrightarrow> JStr (photo_id p) \<in> set arr)
               \<and> map photo_id (photos x') = map photo_id (photos x)
               \<and> map url (photos x') = map url (photos x)
               \<and> map filename (photos x') = map filename (photos x)
               \<and> status x' = Submitted
               \<and> customerName x' = customerName x \<and> createdAt x' = createdAt x
               \<and> (\<forall>k. k \<noteq> sid \<longrightarrow> session_of s' k = session_of s k)
               \<and> portfolioItems (dbData s') = portfolioItems (dbData s)
               \<and> dbFile s' = (if writeFile_ok e then Some (dbData s') else dbFile s)"
    using assms
    by (simp add: submit_array dbData_saveData dbFile_saveData map_of_update_property comp_def)
next
  assume "\<not> isArray ids"
  then show "POST_submitSelection e sessionId ids s = (Error 400 SelectedIdsMustBeArray, s)"
    using assms by (simp add: POST_submitSelection_def get_property_def)
qed

theorem submitSelection_overwrites_selection_witness:
  "(\<exists>s' x'. POST_submitSelection sample_env (Some ''s1'') (Some (JArr [JStr ''pb''])) sample_server
               = (SelectionSubmitted, s')
      \<and> session_of s' ''s1'' = Some x'
      \<and> map selected (photos session1) = [True, False]
      \<and> map photo_id (photos x') = [''pa'', ''pb'']
      \<and> (\<forall>p \<in> set (photos x'). selected p \<longleftrightarrow> photo_id p = ''pb'')
      \<and> status x' = Submitted
      \<and> dbFile s' = Some (dbData s'))
   \<and> POST_submitSelection sample_env (Some ''s1'') (Some (JStr ''pb'')) sample_server
       = (Error 400 SelectedIdsMustBeArray, sample_server)"
proof -
  have h1: "given (Some ''s1'') = Some ''s1''" by simp
  have h2: "session_of sample_server ''s1'' = Some session1"
    by (simp add: sample_server_def)
  have w: "writeFile_ok sample_env" by (simp add: sample_env_def)
  have a: "map photo_id (photos session1) = [''pa'', ''pb'']"
    and b: "map selected (photos session1) = [True, False]"
    by (simp_all add: session1_def photo_a_def photo_b_def)
  from submitSelection_overwrites_selection[OF h1 h2, of "Some (JArr [JStr ''pb''])" sample_env]
       submitSelection_overwrites_selection[OF h1 h2, of "Some (JStr ''pb'')" sample_env]
  show ?thesis
    using w a b by auto
qed

text \<open>
  Claim C3. Two calls in a row with the same array, on a stored session: both succeed,
  the session is submitted after each, and the second call leaves the document in memory
  as the first one made it (so the selected flags are the same after both).
\<close>

theorem submitSelection_idempotent:
  assumes "given sessionId = Some sid" and "session_of s sid = Some x"
    and "ids = Some (JArr arr)"
    and "POST_submitSelection e1 sessionId ids s = (r1, s1)"
    and "POST_submitSelection e2 sessionId ids s1 = (r2, s2)"
  shows "r1 = SelectionSubmitted \<and> r2 = SelectionSubmitted \<and> dbData s2 = dbData s1
       \<and> map_option status (session_of s1 sid) = Some Submitted
       \<and> map_option status (session_of s2 sid) = Some Submitted
       \<and> map_option (map selected \<circ> photos) (session_of s2 sid)
           = map_option (map selected \<circ> photos) (session_of s1 sid)"
proof -
  let ?f = "\<lambda>x. x\<lparr>photos := map (\<lambda>p. p\<lparr>selected := JStr (photo_id p) \<in> set arr\<rparr>) (photos x),
                        status := Submitted\<rparr>"
  have 1: "r1 = SelectionSubmitted"
    and s1: "s1 = saveData e1 (s\<lparr>dbData := (dbData s)\<lparr>sessions :=
               update_property sid ?f (sessions (dbData s))\<rparr>\<rparr>)"
    using assms submit_array[OF assms(1,2), of e1 arr] by auto
  have x1: "session_of s1 sid = Some (?f x)"
    using assms(2) by (simp add: s1 dbData_saveData map_of_update_property)
  have 2: "r2 = SelectionSubmitted"
    and s2: "s2 = saveData e2 (s1\<lparr>dbData := (dbData s1)\<lparr>sessions :=
               update_property sid ?f (sessions (dbData s1))\<rparr>\<rparr>)"
    using assms submit_array[OF assms(1) x1, of e2 arr] by auto
  have idem: "?f \<circ> ?f = ?f"
    by (rule ext) (simp add: comp_def)
  have db: "dbData s2 = dbData s1"
    by (simp add: s2 s1 dbData_saveData update_property_twice idem)
  show ?thesis
    using 1 2 db x1 by simp
qed

theorem submitSelection_idempotent_witness:
  "\<exists>s1 s2. POST_submitSelection sample_env (Some ''s2'') (Some (JArr [JStr ''pc''])) sample_server
              = (SelectionSubmitted, s1)
     \<and> POST_submitSelection sample_env (Some ''s2'') (Some (JArr [JStr ''pc''])) s1
              = (SelectionSubmitted, s2)
     \<and> dbData s2 = dbData s1
     \<and> map_option status (session_of s1 ''s2'') = Some Submitted
     \<and> map_option status (session_of s2 ''s2'') = Some Submitted"
proof -
  have h1: "given (Some ''s2'') = Some ''s2''" by simp
  have h2: "session_of sample_server ''s2'' = Some session2"
    by (simp add: sample_server_def)
  obtain r1 s1 where c1:
    "POST_submitSelection sample_env (Some ''s2'') (Some (JArr [JStr ''pc''])) sample_server = (r1, s1)"
    by (cases "POST_submitSelection sample_env (Some ''s2'') (Some (JArr [JStr ''pc''])) sample_server")
  obtain r2 s2 where c2:
    "POST_submitSelection sample_env (Some ''s2'') (Some (JArr [JStr ''pc''])) s1 = (r2, s2)"
    by (cases "POST_submitSelection sample_env (Some ''s2'') (Some (JArr [JStr ''pc''])) s1")
  from submitSelection_idempotent[OF h1 h2 refl c1 c2] c1 c2
  show ?thesis by auto
qed

subsection \<open>Deleting photos, sessions and portfolio items\<close>

lemma length_splice1: "i < length xs \<Longrightarrow> length (splice1 i xs) = length xs - 1"
  by (simp add: splice1_def)

text \<open>
  Claim C10. Whatever \<open>fs.unlink\<close> does (success, a missing file or any other error):
  deleting a photo that is in the session, deleting a stored session and deleting a
  portfolio item that is in the list succeed, remove the record and rewrite \<open>db.json\<close>
  (a failed write is only logged); and the response, the document in memory and the
  document on disk after each of the three handlers are the same under every other
  outcome of \<open>unlink\<close>.
\<close>

theorem deletions_swallow_unlink_failures:
  "(\<forall>x i. session_of s sid = Some x \<and> findIndex (\<lambda>p. photo_id p = pid) (photos x) = Some i \<longrightarrow>
      (\<exists>s'. DELETE_photo e sid pid s = (PhotoDeleted, s')
         \<and> session_of s' sid =
             (if length (photos x) = 1 then None else Some (x\<lparr>photos := splice1 i (photos x)\<rparr>))
         \<and> dbFile s' = (if writeFile_ok e then Some (dbData s') else dbFile s)))
   \<and> (\<forall>x. session_of s sid = Some x \<longrightarrow>
      (\<exists>s'. DELETE_session e sid s = (SessionDeleted, s')
         \<and> session_of s' sid = None
         \<and> dbFile s' = (if writeFile_ok e then Some (dbData s') else dbFile s)))
   \<and> (\<forall>i. findIndex (\<lambda>it. item_id it = iid) (portfolioItems (dbData s)) = Some i \<longrightarrow>
      (\<exists>s'. DELETE_portfolio e iid s = (ItemDeleted, s')
         \<and> portfolioItems (dbData s') = splice1 i (portfolioItems (dbData s))
         \<and> dbFile s' = (if writeFile_ok e then Some (dbData s') else dbFile s)))
   \<and> (\<forall>u. fst (DELETE_photo (e\<lparr>unlink := u\<rparr>) sid pid s) = fst (DELETE_photo e sid pid s)
         \<and> dbData (snd (DELETE_photo (e\<lparr>unlink := u\<rparr>) sid pid s)) = dbData (snd (DELETE_photo e sid pid s))
         \<and> dbFile (snd (DELETE_photo (e\<lparr>unlink := u\<rparr>) sid pid s)) = dbFile (snd (DELETE_photo e sid pid s))
         \<and> fst (DELETE_session (e\<lparr>unlink := u\<rparr>) sid s) = fst (DELETE_session e sid s)
         \<and> dbData (snd (DELETE_session (e\<lparr>unlink := u\<rparr>) sid s)) = dbData (snd (DELETE_session e sid s))
         \<and> dbFile (snd (DELETE_session (e\<lparr>unlink := u\<rparr>) sid s)) = dbFile (snd (DELETE_session e sid s))
         \<and> fst (DELETE_portfolio (e\<lparr>unlink := u\<rparr>) iid s) = fst (DELETE_portfolio e iid s)
         \<and> dbData (snd (DELETE_portfolio (e\<lparr>unlink := u\<rparr>) iid s)) = dbData (snd (DELETE_portfolio e iid s))
         \<and> dbFile (snd (DELETE_portfolio (e\<lparr>unlink := u\<rparr>) iid s)) = dbFile (snd (DELETE_portfolio e iid s)))"
proof -
  have a: "\<forall>x i. session_of s sid = Some x \<and> findIndex (\<lambda>p. photo_id p = pid) (photos x) = Some i \<longrightarrow>
      (\<exists>s'. DELETE_photo e sid pid s = (PhotoDeleted, s')
         \<and> session_of s' sid =
             (if length (photos x) = 1 then None else Some (x\<lparr>photos := splice1 i (photos x)\<rparr>))
         \<and> dbFile s' = (if writeFile_ok e then Some (dbData s') else dbFile s))"
  proof (intro allI impI)
    fix x i
    assume h: "session_of s sid = Some x \<and> findIndex (\<lambda>p. photo_id p = pid) (photos x) = Some i"
    then have "i < length (photos x)"
      using findIndex_Some by fastforce
    then have "length (splice1 i (photos x)) = 0 \<longleftrightarrow> length (photos x) = 1"
      by (auto simp: length_splice1)
    then show "\<exists>s'. DELETE_photo e sid pid s = (PhotoDeleted, s')
         \<and> session_of s' sid =
             (if length (photos x) = 1 then None else Some (x\<lparr>photos := splice1 i (photos x)\<rparr>))
         \<and> dbFile s' = (if writeFile_ok e then Some (dbData s') else dbFile s)"
      using h
      by (simp add: DELETE_photo_def get_property_def Let_def dbData_saveData dbFile_saveData
            map_of_update_property map_of_delete_property)
  qed
  have b: "\<forall>x. session_of s sid = Some x \<longrightarrow>
      (\<exists>s'. DELETE_session e sid s = (SessionDeleted, s')
         \<and> session_of s' sid = None
         \<and> dbFile s' = (if writeFile_ok e then Some (dbData s') else dbFile s))"
    by (simp add: DELETE_session_def get_property_def Let_def dbData_saveData dbFile_saveData map_of_delete_property)
  have c: "\<forall>i. findIndex (\<lambda>it. item_id it = iid) (portfolioItems (dbData s)) = Some i \<longrightarrow>
      (\<exists>s'. DELETE_portfolio e iid s = (ItemDeleted, s')
         \<and> portfolioItems (dbData s') = splice1 i (portfolioItems (dbData s))
         \<and> dbFile s' = (if writeFile_ok e then Some (dbData s') else dbFile s))"
    by (simp add: DELETE_portfolio_def Let_def dbData_saveData dbFile_saveData)
  have d: "\<forall>u. fst (DELETE_photo (e\<lparr>unlink := u\<rparr>) sid pid s) = fst (DELETE_photo e sid pid s)
         \<and> dbData (snd (DELETE_photo (e\<lparr>unlink := u\<rparr>) sid pid s)) = dbData (snd (DELETE_photo e sid pid s))
         \<and> dbFile (snd (DELETE_photo (e\<lparr>unlink := u\<rparr>) sid pid s)) = dbFile (snd (DELETE_photo e sid pid s))"
    by (simp add: DELETE_photo_def get_property_def Let_def dbData_saveData dbFile_saveData split: option.splits)
  have f: "\<forall>u. fst (DELETE_session (e\<lparr>unlink := u\<rparr>) sid s) = fst (DELETE_session e sid s)
         \<and> dbData (snd (DELETE_session (e\<lparr>unlink := u\<rparr>) sid s)) = dbData (snd (DELETE_session e sid s))
         \<and> dbFile (snd (DELETE_session (e\<lparr>unlink := u\<rparr>) sid s)) = dbFile (snd (DELETE_session e sid s))"
    by (simp add: DELETE_session_def get_property_def Let_def dbData_saveData dbFile_saveData split: option.splits)
  have g: "\<forall>u. fst (DELETE_portfolio (e\<lparr>unlink := u\<rparr>) iid s) = fst (DELETE_portfolio e iid s)
         \<and> dbData (snd (DELETE_portfolio (e\<lparr>unlink := u\<rparr>) iid s)) = dbData (snd (DELETE_portfolio e iid s))
         \<and> dbFile (snd (DELETE_portfolio (e\<lparr>unlink := u\<rparr>) iid s)) = dbFile (snd (DELETE_portfolio e iid s))"
    by (simp add: DELETE_portfolio_def Let_def dbData_saveData dbFile_saveData split: option.splits)
  from a b c d f g show ?thesis by blast
qed

theorem deletions_swallow_unlink_failures_witness:
  "unlink sample_env UPLOAD_DIR ''c.jpg'' = EOTHER
   \<and> unlink sample_env UPLOAD_DIR ''b.jpg'' = ENOENT
   \<and> unlink sample_env PORTFOLIO_DIR ''w.jpg'' = EOTHER
   \<and> (\<exists>s'. DELETE_photo sample_env ''s2'' ''pc'' sample_server = (PhotoDeleted, s')
         \<and> session_of s' ''s2'' = None \<and> dbFile s' = Some (dbData s'))
   \<and> (\<exists>s'. DELETE_session sample_env ''s1'' sample_server = (SessionDeleted, s')
         \<and> session_of s' ''s1'' = None \<and> dbFile s' = Some (dbData s'))
   \<and> (\<exists>s'. DELETE_portfolio sample_env ''i1'' sample_server = (ItemDeleted, s')
         \<and> portfolioItems (dbData s') = [] \<and> dbFile s' = Some (dbData s'))"
proof -
  have u: "unlink sample_env UPLOAD_DIR ''c.jpg'' = EOTHER"
    "unlink sample_env UPLOAD_DIR ''b.jpg'' = ENOENT"
    "unlink sample_env PORTFOLIO_DIR ''w.jpg'' = EOTHER"
    and w: "writeFile_ok sample_env"
    by (simp_all add: sample_env_def)
  have p: "session_of sample_server ''s2'' = Some session2
           \<and> findIndex (\<lambda>p. photo_id p = ''pc'') (photos session2) = Some 0"
    by (simp add: sample_server_def session2_def photo_c_def)
  have l: "length (photos session2) = 1"
    by (simp add: session2_def)
  have q: "session_of sample_server ''s1'' = Some session1"
    by (simp add: sample_server_def)
  have r: "findIndex (\<lambda>it. item_id it = ''i1'') (portfolioItems (dbData sample_server)) = Some 0"
    "splice1 0 (portfolioItems (dbData sample_server)) = []"
    by (simp_all add: sample_server_def sample_item_def splice1_def)
  from deletions_swallow_unlink_failures[of sample_server "''s2''" "''pc''" sample_env "''i1''"]
       deletions_swallow_unlink_failures[of sample_server "''s1''" "''pc''" sample_env "''i1''"]
  show ?thesis
    using u w p l q r by auto
qed

subsection \<open>Every document the server builds is well-formed\<close>

lemma keys_update_property: "map fst (update_property k f kvs) = map fst kvs"
  by (induction kvs) (auto simp: update_property_def)

lemma set_insert_index: "set (insert_index k v kvs) = insert (k, v) (set kvs)"
  by (induction kvs) (auto split: if_splits)

lemma keys_insert_index: "set (map fst (insert_index k v kvs)) = insert k (set (map fst kvs))"
  by (simp add: set_insert_index)

lemma distinct_insert_index:
  "distinct (map fst kvs) \<Longrightarrow> k \<notin> set (map fst kvs) \<Longrightarrow> distinct (map fst (insert_index k v kvs))"
proof (induction kvs)
  case Nil
  then show ?case by simp
next
  case (Cons a kvs)
  obtain k' v' where a: "a = (k', v')" by (cases a)
  have "k' \<notin> set (map fst (insert_index k v kvs))"
    using Cons.prems unfolding keys_insert_index a by auto
  with Cons show ?case by (auto simp: a)
qed

lemma distinct_set_property:
  "distinct (map fst kvs) \<Longrightarrow> distinct (map fst (set_property k v kvs))"
  by (auto simp: set_property_def keys_update_property distinct_insert_index map_of_eq_None_iff)

lemma distinct_delete_property:
  "distinct (map fst kvs) \<Longrightarrow> distinct (map fst (delete_property k kvs))"
  by (simp add: delete_property_def distinct_map_filter)

lemma wf_db_iff:
  "wf_db d \<longleftrightarrow> distinct (map fst (sessions d))
     \<and> (\<forall>k x. map_of (sessions d) k = Some x \<longrightarrow> k \<noteq> [] \<and> photos x \<noteq> [])"
proof (cases "distinct (map fst (sessions d))")
  case True
  have "list_all (\<lambda>(k, x). k \<noteq> [] \<and> photos x \<noteq> []) (sessions d)
          \<longleftrightarrow> (\<forall>k x. (k, x) \<in> set (sessions d) \<longrightarrow> k \<noteq> [] \<and> photos x \<noteq> [])"
    by (auto simp: list_all_iff)
  also have "\<dots> \<longleftrightarrow> (\<forall>k x. map_of (sessions d) k = Some x \<longrightarrow> k \<noteq> [] \<and> photos x \<noteq> [])"
    using True by (simp add: map_of_eq_Some_iff)
  finally show ?thesis
    using True by (simp add: wf_db_def)
next
  case False
  then show ?thesis by (simp add: wf_db_def)
qed

lemma wf_saveData: "wf (saveData e s) \<longleftrightarrow> wf_db (dbData s) \<and> (writeFile_ok e \<or> wf s)"
  by (auto simp: wf_def saveData_def split: option.splits)

lemma wf_saveDataI: "wf_db (dbData s) \<Longrightarrow> (case dbFile s of None \<Rightarrow> True | Some d \<Rightarrow> wf_db d) \<Longrightarrow> wf (saveData e s)"
  by (auto simp: wf_def saveData_def split: option.splits)

lemma wf_loadData: "wf s \<Longrightarrow> wf (loadData e s)"
  by (auto simp: wf_def loadData_def saveData_def wf_db_def split: option.splits)

lemma given_Some: "given x = Some v \<longleftrightarrow> x = Some v \<and> v \<noteq> []"
  by (cases x) auto

lemma wf_upload:
  assumes "wf s" and "uuidv4 e 1 \<noteq> []"
  shows "wf (snd (POST_upload e upl sessionId name s))"
proof (cases upl)
  case None
  then show ?thesis using assms by (simp add: POST_upload_def get_property_def)
next
  case (Some fname)
  have d: "wf_db (dbData s)" and f: "(case dbFile s of None \<Rightarrow> True | Some d \<Rightarrow> wf_db d)"
    using assms(1) by (auto simp: wf_def)
  show ?thesis
    using d assms f
    apply (simp add: Some POST_upload_def get_property_def Let_def split: option.splits prod.splits)
    apply (intro conjI impI allI)
    apply (auto intro!: wf_saveDataI simp: wf_db_iff createNewSession_def keys_update_property distinct_set_property
        map_of_update_property map_of_set_property given_Some split: if_splits option.splits)
    done
qed

lemma wf_parts: "wf s \<Longrightarrow> wf_db (dbData s) \<and> (case dbFile s of None \<Rightarrow> True | Some d \<Rightarrow> wf_db d)"
  by (simp add: wf_def)

lemma splice1_nonempty: "i < length xs \<Longrightarrow> length (splice1 i xs) \<noteq> 0 \<Longrightarrow> splice1 i xs \<noteq> []"
  by auto

lemma wf_delete_photo:
  assumes "wf s"
  shows "wf (snd (DELETE_photo e sessionId photoId s))"
  using wf_parts[OF assms] assms
  by (auto intro!: wf_saveDataI
      simp: DELETE_photo_def get_property_def Let_def wf_db_iff keys_update_property distinct_delete_property
        map_of_update_property map_of_delete_property
      split: option.splits if_splits)

lemma wf_delete_session:
  assumes "wf s"
  shows "wf (snd (DELETE_session e sessionId s))"
  using wf_parts[OF assms] assms
  by (auto intro!: wf_saveDataI
      simp: DELETE_session_def get_property_def Let_def wf_db_iff distinct_delete_property map_of_delete_property
      split: option.splits if_splits)

lemma wf_finishSession:
  assumes "wf s"
  shows "wf (snd (POST_finishSession e sessionId s))"
  using wf_parts[OF assms] assms
  by (auto intro!: wf_saveDataI
      simp: POST_finishSession_def get_property_def Let_def wf_db_iff keys_update_property map_of_update_property
      split: option.splits if_splits)

lemma wf_submitSelection:
  assumes "wf s"
  shows "wf (snd (POST_submitSelection e sessionId ids s))"
  using wf_parts[OF assms] assms
  by (auto intro!: wf_saveDataI
      simp: POST_submitSelection_def get_property_def Let_def wf_db_iff keys_update_property map_of_update_property
      split: option.splits if_splits)

lemma wf_generateQRCode:
  assumes "wf s"
  shows "wf (snd (POST_generateQRCode e sessionId page s))"
  using assms
  by (auto simp: POST_generateQRCode_def get_property_def Let_def wf_def split: option.splits if_splits)

lemma wf_portfolio_upload:
  assumes "wf s"
  shows "wf (snd (POST_portfolio_upload e files cat s))"
  using wf_parts[OF assms] assms
  by (auto intro!: wf_saveDataI
      simp: POST_portfolio_upload_def Let_def wf_db_def split: option.splits if_splits prod.splits)

lemma wf_get_portfolio:
  assumes "wf s"
  shows "wf (snd (GET_portfolio cat s))"
  using assms
  by (auto simp: GET_portfolio_def Let_def wf_def wf_db_def split: option.splits if_splits)

lemma wf_delete_portfolio:
  assumes "wf s"
  shows "wf (snd (DELETE_portfolio e itemId s))"
  using wf_parts[OF assms] assms
  by (auto intro!: wf_saveDataI
      simp: DELETE_portfolio_def Let_def wf_db_def split: option.splits if_splits)

lemma wf_step:
  assumes "wf s" and "uuidv4 e 1 \<noteq> []"
  shows "wf (snd (step e r s))"
proof (cases r)
  case (Upload x11 x12 x13)
  then show ?thesis using assms by (simp add: wf_upload)
next
  case (ListSessions x51 x52 x53 x54)
  then show ?thesis using assms by (simp add: GET_sessions_def split: option.splits)
next
  case (ListPhotos x61 x62)
  then show ?thesis using assms by (simp add: GET_photos_def get_property_def Let_def split: option.splits)
qed (use assms in \<open>simp_all add: wf_delete_photo wf_delete_session wf_finishSession
      wf_submitSelection wf_generateQRCode wf_portfolio_upload wf_get_portfolio wf_delete_portfolio\<close>)

lemma wf_initial: "wf initial"
  by (simp add: wf_def wf_db_def initial_def)

lemma reachable_wf: "reachable s \<Longrightarrow> wf s"
  by (induction rule: reachable.induct) (simp_all add: wf_initial wf_loadData wf_step)

lemma reachable_no_empty_id: "reachable s \<Longrightarrow> session_of s [] = None"
proof -
  assume "reachable s"
  then have "wf_db (dbData s)" using reachable_wf wf_def by blast
  then have *: "\<And>k x. session_of s k = Some x \<Longrightarrow> k \<noteq> []"
    unfolding wf_db_iff by blast
  show ?thesis
  proof (cases "session_of s []")
    case None
    then show ?thesis .
  next
    case (Some a)
    from *[OF this] show ?thesis by simp
  qed
qed

lemma reachable_photos_nonempty: "reachable s \<Longrightarrow> session_of s k = Some x \<Longrightarrow> photos x \<noteq> []"
proof -
  assume "reachable s" and x: "session_of s k = Some x"
  then have "wf_db (dbData s)" using reachable_wf wf_def by blast
  then have *: "\<And>k x. session_of s k = Some x \<Longrightarrow> photos x \<noteq> []"
    unfolding wf_db_iff by blast
  from *[OF x] show ?thesis .
qed

subsection \<open>Sessions without photos\<close>

lemma set_slice: "set (slice xs a b) \<subseteq> set xs"
  unfolding slice_def Let_def
  by (meson order_trans set_drop_subset set_take_subset)

lemma set_filteredSessions:
  "set (filteredSessions e st search s) \<subseteq> summarize ` set (sessions (dbData s))"
  by (auto simp: filteredSessions_def filter_search_def filter_status_def Let_def
      split: option.splits if_splits)

lemma set_paginatedSessions:
  "set (paginatedSessions e st search page limit s) \<subseteq> summarize ` set (sessions (dbData s))"
  unfolding paginatedSessions_def Let_def
  using set_slice set_filteredSessions by fast

lemma listed_ids:
  "y \<in> set (paginatedSessions e st search page limit s) \<Longrightarrow> session_of s (sum_id y) \<noteq> None"
proof -
  assume "y \<in> set (paginatedSessions e st search page limit s)"
  then obtain kv where "kv \<in> set (sessions (dbData s))" "y = summarize kv"
    using set_paginatedSessions by blast
  then have "sum_id y \<in> fst ` set (sessions (dbData s))"
    by (auto simp: summarize_def)
  then show ?thesis
    by (simp add: map_of_eq_None_iff)
qed

lemma listed_photoCount:
  assumes "wf_db (dbData s)" and "y \<in> set (paginatedSessions e st search page limit s)"
  shows "1 \<le> photoCount y"
proof -
  obtain k x where kx: "(k, x) \<in> set (sessions (dbData s))" "y = summarize (k, x)"
    using set_paginatedSessions assms(2) by fast
  have "list_all (\<lambda>(k, x). k \<noteq> [] \<and> photos x \<noteq> []) (sessions (dbData s))"
    using assms(1) by (simp add: wf_db_def)
  with kx(1) have "photos x \<noteq> []"
    by (auto simp: list_all_iff)
  then show ?thesis
    by (cases "photos x") (simp_all add: kx(2) summarize_def)
qed

text \<open>
  Claim C4. In every state the server reaches from the empty document, every stored
  session has a photo; so every summary that \<open>GET /sessions\<close> returns has a photo count
  of at least one and every photo list that \<open>GET /photos\<close> returns is non-empty. In any
  state, deleting the only photo of a session succeeds and deletes the session, and no
  later \<open>GET /sessions\<close>, whatever its query, lists the session's id.
\<close>

theorem no_session_without_photos:
  "(reachable s \<longrightarrow>
      (\<forall>sid x. session_of s sid = Some x \<longrightarrow> photos x \<noteq> [])
    \<and> (\<forall>e st search page limit xs t p l.
          fst (GET_sessions e st search page limit s) = SessionsOk xs t p l
            \<longrightarrow> (\<forall>y \<in> set xs. 1 \<le> photoCount y))
    \<and> (\<forall>sessionId clientType vs.
          fst (GET_photos sessionId clientType s) = PhotosOk vs \<longrightarrow> vs \<noteq> []))
   \<and> (\<forall>e sid x p. session_of s sid = Some x \<and> photos x = [p] \<longrightarrow>
        (\<exists>s'. DELETE_photo e sid (photo_id p) s = (PhotoDeleted, s')
           \<and> session_of s' sid = None
           \<and> (\<forall>e' st search page limit xs t pg l.
                fst (GET_sessions e' st search page limit s') = SessionsOk xs t pg l
                  \<longrightarrow> sid \<notin> sum_id ` set xs)))"
proof -
  have abc: "reachable s \<longrightarrow>
      (\<forall>sid x. session_of s sid = Some x \<longrightarrow> photos x \<noteq> [])
    \<and> (\<forall>e st search page limit xs t p l.
          fst (GET_sessions e st search page limit s) = SessionsOk xs t p l
            \<longrightarrow> (\<forall>y \<in> set xs. 1 \<le> photoCount y))
    \<and> (\<forall>sessionId clientType vs.
          fst (GET_photos sessionId clientType s) = PhotosOk vs \<longrightarrow> vs \<noteq> [])"
  proof
    assume r: "reachable s"
    have wf: "wf_db (dbData s)"
      using reachable_wf[OF r] by (simp add: wf_def)
    have a: "\<forall>sid x. session_of s sid = Some x \<longrightarrow> photos x \<noteq> []"
      using reachable_photos_nonempty[OF r] by blast
    have b: "\<forall>e st search page limit xs t p l.
              fst (GET_sessions e st search page limit s) = SessionsOk xs t p l
                \<longrightarrow> (\<forall>y \<in> set xs. 1 \<le> photoCount y)"
      using listed_photoCount[OF wf] by (simp add: GET_sessions_def split: option.splits)
    have c: "\<forall>sessionId clientType vs.
              fst (GET_photos sessionId clientType s) = PhotosOk vs \<longrightarrow> vs \<noteq> []"
      using a by (auto simp: GET_photos_def get_property_def Let_def split: option.splits if_splits)
    show "(\<forall>sid x. session_of s sid = Some x \<longrightarrow> photos x \<noteq> [])
        \<and> (\<forall>e st search page limit xs t p l.
              fst (GET_sessions e st search page limit s) = SessionsOk xs t p l
                \<longrightarrow> (\<forall>y \<in> set xs. 1 \<le> photoCount y))
        \<and> (\<forall>sessionId clientType vs.
              fst (GET_photos sessionId clientType s) = PhotosOk vs \<longrightarrow> vs \<noteq> [])"
      by (intro conjI; fact a b c)
  qed
  have d: "\<forall>e sid x p. session_of s sid = Some x \<and> photos x = [p] \<longrightarrow>
            (\<exists>s'. DELETE_photo e sid (photo_id p) s = (PhotoDeleted, s')
               \<and> session_of s' sid = None
               \<and> (\<forall>e' st search page limit xs t pg l.
                    fst (GET_sessions e' st search page limit s') = SessionsOk xs t pg l
                      \<longrightarrow> sid \<notin> sum_id ` set xs))"
  proof (intro allI impI)
    fix e sid x p
    assume h: "session_of s sid = Some x \<and> photos x = [p]"
    obtain s' where s': "DELETE_photo e sid (photo_id p) s = (PhotoDeleted, s')"
      and gone: "session_of s' sid = None"
      using h
      by (simp add: DELETE_photo_def get_property_def Let_def splice1_def dbData_saveData
            map_of_delete_property)
    have n: "\<forall>e' st search page limit. \<forall>y \<in> set (paginatedSessions e' st search page limit s').
               sum_id y \<noteq> sid"
      using listed_ids gone by fastforce
    have "\<forall>e' st search page limit xs t pg l.
            fst (GET_sessions e' st search page limit s') = SessionsOk xs t pg l
              \<longrightarrow> sid \<notin> sum_id ` set xs"
      using n by (simp add: GET_sessions_def image_iff split: option.splits) blast
    with s' gone
    show "\<exists>s'. DELETE_photo e sid (photo_id p) s = (PhotoDeleted, s')
               \<and> session_of s' sid = None
               \<and> (\<forall>e' st search page limit xs t pg l.
                    fst (GET_sessions e' st search page limit s') = SessionsOk xs t pg l
                      \<longrightarrow> sid \<notin> sum_id ` set xs)"
      by blast
  qed
  show ?thesis
    by (intro conjI; fact abc d)
qed

lemma first_upload_session:
  "session_of first_upload ''session-new'' =
     Some \<lparr>customerName = UNKNOWN_CUSTOMER, photos = [uploaded_photo sample_env ''a.jpg''],
           status = Draft, createdAt = 4000\<rparr>"
  by code_simp

theorem no_session_without_photos_witness:
  "reachable first_upload
   \<and> session_of first_upload ''session-new'' =
       Some \<lparr>customerName = UNKNOWN_CUSTOMER, photos = [uploaded_photo sample_env ''a.jpg''],
             status = Draft, createdAt = 4000\<rparr>
   \<and> 1 \<le> photoCount (summarize (''session-new'',
            \<lparr>customerName = UNKNOWN_CUSTOMER, photos = [uploaded_photo sample_env ''a.jpg''],
             status = Draft, createdAt = 4000\<rparr>))
   \<and> (\<exists>s'. DELETE_photo sample_env ''session-new'' ''photo-new'' first_upload = (PhotoDeleted, s')
         \<and> session_of s' ''session-new'' = None
         \<and> ''session-new'' \<notin> sum_id ` set (paginatedSessions sample_env None None None None s'))"
proof -
  have r: "reachable first_upload"
    unfolding first_upload_def
    by (rule reachable_step[OF reachable_initial]) (simp add: sample_env_def)
  have p: "photo_id (uploaded_photo sample_env ''a.jpg'') = ''photo-new''"
    by (simp add: uploaded_photo_def sample_env_def)
  note x = first_upload_session
  note T = no_session_without_photos[of first_upload]
  have ne: "photos \<lparr>customerName = UNKNOWN_CUSTOMER,
                    photos = [uploaded_photo sample_env ''a.jpg''],
                    status = Draft, createdAt = 4000\<rparr> \<noteq> []"
    using T[THEN conjunct1, THEN mp, OF r, THEN conjunct1, rule_format, OF x] .
  then have c: "1 \<le> photoCount (summarize (''session-new'',
            \<lparr>customerName = UNKNOWN_CUSTOMER, photos = [uploaded_photo sample_env ''a.jpg''],
             status = Draft, createdAt = 4000\<rparr>))"
    by (simp add: summarize_def)
  have "\<exists>s'. DELETE_photo sample_env ''session-new''
              (photo_id (uploaded_photo sample_env ''a.jpg'')) first_upload = (PhotoDeleted, s')
         \<and> session_of s' ''session-new'' = None
         \<and> (\<forall>e' st search page limit xs t pg l.
              fst (GET_sessions e' st search page limit s') = SessionsOk xs t pg l
                \<longrightarrow> ''session-new'' \<notin> sum_id ` set xs)"
    using T[THEN conjunct2, rule_format,
            of "''session-new''" _ "uploaded_photo sample_env ''a.jpg''" sample_env] x
    by simp
  then obtain s' where d: "DELETE_photo sample_env ''session-new'' ''photo-new'' first_upload
                             = (PhotoDeleted, s')"
    and g: "session_of s' ''session-new'' = None"
    and l: "\<forall>e' st search page limit xs t pg l.
              fst (GET_sessions e' st search page limit s') = SessionsOk xs t pg l
                \<longrightarrow> ''session-new'' \<notin> sum_id ` set xs"
    unfolding p by (elim exE conjE)
  have l': "''session-new'' \<notin> sum_id ` set (paginatedSessions sample_env None None None None s')"
    by (rule l[rule_format, of sample_env None None None None]) (simp add: GET_sessions_def)
  show ?thesis
    by (intro conjI exI[of _ s']) (rule r x c d g l')+
qed

subsection \<open>The status of a submitted session\<close>

lemma upload_keeps_status:
  assumes "session_of s sid = Some x" and "uuidv4 e 1 \<noteq> sid"
  shows "map_option status (session_of (snd (POST_upload e upl sessionId name s)) sid) = Some (status x)"
proof (cases upl)
  case None
  then show ?thesis using assms by (simp add: POST_upload_def get_property_def)
next
  case (Some fname)
  show ?thesis
  proof (cases "given sessionId")
    case None
    then show ?thesis
      using assms Some
      by (simp add: POST_upload_def get_property_def Let_def createNewSession_def dbData_saveData
            map_of_update_property map_of_set_property)
  next
    case g: (Some k)
    show ?thesis
    proof (cases "session_of s k")
      case None
      then have "k \<noteq> sid" using assms(1) by auto
      then show ?thesis
        using assms Some g None
        by (simp add: POST_upload_def get_property_def Let_def createNewSession_def dbData_saveData
              map_of_update_property map_of_set_property)
    next
      case (Some y)
      then show ?thesis
        using assms \<open>upl = Some fname\<close> g
        by (auto simp: POST_upload_def get_property_def Let_def dbData_saveData map_of_update_property)
    qed
  qed
qed

lemma delete_photo_keeps_status:
  assumes "session_of s sid = Some x"
  shows "session_of (snd (DELETE_photo e k pid s)) sid = None \<and> k = sid
       \<or> map_option status (session_of (snd (DELETE_photo e k pid s)) sid) = Some (status x)"
  using assms
  by (auto simp: DELETE_photo_def get_property_def Let_def dbData_saveData map_of_update_property
        map_of_delete_property split: option.splits)

lemma delete_session_keeps_status:
  assumes "session_of s sid = Some x"
  shows "session_of (snd (DELETE_session e k s)) sid = None \<and> k = sid
       \<or> map_option status (session_of (snd (DELETE_session e k s)) sid) = Some (status x)"
  using assms
  by (simp add: DELETE_session_def get_property_def Let_def dbData_saveData map_of_delete_property
        split: option.splits)

lemma finishSession_status:
  assumes "session_of s sid = Some x"
  shows "map_option status (session_of (snd (POST_finishSession e sessionId s)) sid)
           = Some (if given sessionId = Some sid \<and> photos x \<noteq> [] then Ready else status x)"
  using assms
  by (simp add: POST_finishSession_def get_property_def dbData_saveData map_of_update_property
        split: option.splits)

lemma submitSelection_status:
  assumes "session_of s sid = Some x"
  shows "map_option status (session_of (snd (POST_submitSelection e sessionId ids s)) sid)
           = Some (if given sessionId = Some sid \<and> isArray ids then Submitted else status x)"
  using assms
  by (simp add: POST_submitSelection_def get_property_def dbData_saveData map_of_update_property
        split: option.splits)

lemma sessions_unchanged:
  "sessions (dbData (snd (GET_sessions e st search page limit s))) = sessions (dbData s)"
  "sessions (dbData (snd (GET_photos qid ct s))) = sessions (dbData s)"
  "sessions (dbData (snd (POST_generateQRCode e sessionId pg s))) = sessions (dbData s)"
  "sessions (dbData (snd (POST_portfolio_upload e files cat s))) = sessions (dbData s)"
  "sessions (dbData (snd (GET_portfolio cat s))) = sessions (dbData s)"
  "sessions (dbData (snd (DELETE_portfolio e itemId s))) = sessions (dbData s)"
  by (simp_all add: GET_sessions_def GET_photos_def get_property_def POST_generateQRCode_def get_property_def
        POST_portfolio_upload_def GET_portfolio_def DELETE_portfolio_def Let_def dbData_saveData
        split: option.splits prod.splits)

text \<open>
  Claim C1, as stated, fails: \<open>POST /finishSession\<close> does not look at the status, so on
  a submitted session with a photo it succeeds and sets the status to ready.
\<close>

theorem finishSession_reopens_submitted_session:
  "map_option status (session_of sample_server ''s1'') = Some Submitted
   \<and> fst (step sample_env (FinishSession (Some ''s1'')) sample_server) = SessionFinished
   \<and> map_option status
        (session_of (snd (step sample_env (FinishSession (Some ''s1'')) sample_server)) ''s1'')
       = Some Ready"
  by code_simp

text \<open>
  Claim C1, amended. For a stored session that is submitted, and any request (with a
  generated session id other than this session's): afterwards the session is submitted
  still, except that \<open>POST /finishSession\<close> for this session, when it has a photo, makes
  it ready; it is never a draft again. The session is gone afterwards only when the
  request deleted one of its photos or the session itself.
\<close>

theorem submitted_session_transitions:
  assumes "session_of s sid = Some x" and "status x = Submitted" and "uuidv4 e 1 \<noteq> sid"
  shows "(\<forall>x'. session_of (snd (step e r s)) sid = Some x' \<longrightarrow>
            status x' = (if (\<exists>sessionId. r = FinishSession sessionId \<and> given sessionId = Some sid)
                            \<and> photos x \<noteq> []
                         then Ready else Submitted))
       \<and> (session_of (snd (step e r s)) sid = None \<longrightarrow>
            (\<exists>pid. r = DeletePhoto sid pid) \<or> r = DeleteSession sid)"
proof (cases r)
  case (Upload upl sessionId name)
  then show ?thesis
    using upload_keeps_status[OF assms(1,3), of upl sessionId name] assms(2) by auto
next
  case (DeletePhoto k pid)
  then show ?thesis
    using delete_photo_keeps_status[OF assms(1), of e k pid] assms(2) by auto
next
  case (DeleteSession k)
  then show ?thesis
    using delete_session_keeps_status[OF assms(1), of e k] assms(2) by auto
next
  case (FinishSession sessionId)
  then show ?thesis
    using finishSession_status[OF assms(1), of e sessionId] assms(2) by auto
next
  case (SubmitSelection sessionId ids)
  then show ?thesis
    using submitSelection_status[OF assms(1), of e sessionId ids] assms(2) by auto
qed (use assms in \<open>simp_all add: sessions_unchanged\<close>)

theorem submitted_session_transitions_witness:
  "session_of sample_server ''s1'' = Some session1 \<and> status session1 = Submitted
   \<and> uuidv4 sample_env 1 \<noteq> ''s1''
   \<and> map_option status
        (session_of (snd (step sample_env (SubmitSelection (Some ''s1'') (Some (JArr [])))
           sample_server)) ''s1'') = Some Submitted
   \<and> map_option status
        (session_of (snd (step sample_env (FinishSession (Some ''s1'')) sample_server)) ''s1'')
       = Some Ready
   \<and> map_option status
        (session_of (snd (step sample_env (Upload (Some ''n.jpg'') (Some ''s1'') None)
           sample_server)) ''s1'') = Some Submitted"
proof -
  have h1: "session_of sample_server ''s1'' = Some session1"
    by (simp add: sample_server_def)
  have h2: "status session1 = Submitted"
    by (simp add: session1_def)
  have h3: "uuidv4 sample_env 1 \<noteq> ''s1''"
    by (simp add: sample_env_def)
  have ph: "photos session1 \<noteq> []"
    by (simp add: session1_def)
  note T = submitted_session_transitions[OF h1 h2 h3]
  have w1: "map_option status
        (session_of (snd (step sample_env (SubmitSelection (Some ''s1'') (Some (JArr [])))
           sample_server)) ''s1'') = Some Submitted"
    using T[of "SubmitSelection (Some ''s1'') (Some (JArr []))"]
    by (cases "session_of (snd (step sample_env (SubmitSelection (Some ''s1'') (Some (JArr [])))
           sample_server)) ''s1''") simp_all
  have w2: "map_option status
        (session_of (snd (step sample_env (FinishSession (Some ''s1'')) sample_server)) ''s1'')
       = Some Ready"
    using T[of "FinishSession (Some ''s1'')"] ph
    by (cases "session_of (snd (step sample_env (FinishSession (Some ''s1'')) sample_server)) ''s1''")
       simp_all
  have w3: "map_option status
        (session_of (snd (step sample_env (Upload (Some ''n.jpg'') (Some ''s1'') None)
           sample_server)) ''s1'') = Some Submitted"
    using T[of "Upload (Some ''n.jpg'') (Some ''s1'') None"]
    by (cases "session_of (snd (step sample_env (Upload (Some ''n.jpg'') (Some ''s1'') None)
           sample_server)) ''s1''") simp_all
  show ?thesis
    by (intro conjI; fact h1 h2 h3 w1 w2 w3)
qed

subsection \<open>Listing the sessions\<close>












subsection \<open>Session ids that name a member of \<open>Object.prototype\<close>\<close>

text \<open>
  The handlers test \<open>!dbData.sessions[sessionId]\<close> to find out whether a session is
  stored. For an id such as \<open>constructor\<close> or \<open>__proto__\<close> the read finds the member
  that every object inherits, the test takes the session for stored, and the next read of
  \<open>.photos\<close> of that member throws.
\<close>

lemma get_property_Own: "map_of kvs k = Some v \<Longrightarrow> get_property kvs k = Own v"
  by (simp add: get_property_def)

lemma get_property_Inherited:
  "map_of kvs k = None \<Longrightarrow> k \<in> set Object_prototype_names \<Longrightarrow> get_property kvs k = Inherited"
  by (simp add: get_property_def)

lemma get_property_Undefined:
  "map_of kvs k = None \<Longrightarrow> k \<notin> set Object_prototype_names \<Longrightarrow> get_property kvs k = Undefined"
  by (simp add: get_property_def)

lemma inherited_nonempty: "k \<in> set Object_prototype_names \<Longrightarrow> k \<noteq> []"
  by (auto simp: Object_prototype_names_def)

lemma inherited_name_throws:
  assumes "sid \<in> set Object_prototype_names" and "session_of s sid = None"
  shows "GET_photos (Some (QStr sid)) clientType s = (ThrowsTypeError, s)"
    and "POST_finishSession e (Some sid) s = (ThrowsTypeError, s)"
    and "given page \<noteq> None \<Longrightarrow> POST_generateQRCode e (Some sid) page s = (ThrowsTypeError, s)"
    and "POST_upload e (Some fname) (Some sid) name s = (ThrowsTypeError, s)"
    and "DELETE_photo e sid photoId s = (ThrowsTypeError, s)"
    and "DELETE_session e sid s = (ThrowsTypeError, s)"
    and "isArray ids \<Longrightarrow> POST_submitSelection e (Some sid) ids s = (ThrowsTypeError, s)"
  using assms inherited_nonempty[OF assms(1)]
  by (auto simp: GET_photos_def POST_finishSession_def POST_generateQRCode_def POST_upload_def
        DELETE_photo_def DELETE_session_def POST_submitSelection_def
        get_property_Inherited Let_def)

subsection \<open>Listing the photos of a session\<close>

lemma session_of_rename_files:
  "session_of (rename_files g s) sid =
     map_option (\<lambda>x. x\<lparr>photos := map (\<lambda>p. p\<lparr>filename := g p\<rparr>) (photos x)\<rparr>) (session_of s sid)"
  by (simp add: rename_files_def map_of_map)

text \<open>
  For every other session id (and a document without a session under the empty id, as
  every document the server builds is, see \<open>reachable_no_empty_id\<close>) the handler does
  what C6 says: \<open>GET /photos\<close> answers 404 exactly when the request names no stored
  session; for a stored session it answers 403 exactly when the session is a draft
  and the header \<open>x-client-type\<close> is not \<open>photographer\<close>; otherwise it returns, photo by
  photo and in order, the id, the url and the selected flag. The state is not changed, and
  the response does not depend on the file names.
\<close>

lemma listPhotos_outcomes:
  assumes "session_of s [] = None"
    and "\<forall>sid. sessionId = Some sid \<longrightarrow> sid \<notin> set Object_prototype_names"
  shows "(fst (GET_photos (map_option QStr sessionId) clientType s)
            = Error 404 InvalidCodeOrNoSession \<longleftrightarrow> absent s sessionId)
       \<and> (\<forall>sid x. sessionId = Some sid \<and> session_of s sid = Some x \<longrightarrow>
            (fst (GET_photos (map_option QStr sessionId) clientType s) = Error 403 NotReadyYet
               \<longleftrightarrow> status x = Draft \<and> clientType \<noteq> Some ''photographer'')
          \<and> (\<not> (status x = Draft \<and> clientType \<noteq> Some ''photographer'') \<longrightarrow>
               fst (GET_photos (map_option QStr sessionId) clientType s) =
                 PhotosOk (map (\<lambda>p. \<lparr>view_id = photo_id p, view_url = url p,
                                      view_selected = selected p\<rparr>) (photos x))))
       \<and> snd (GET_photos (map_option QStr sessionId) clientType s) = s
       \<and> (\<forall>g. fst (GET_photos (map_option QStr sessionId) clientType (rename_files g s))
               = fst (GET_photos (map_option QStr sessionId) clientType s))"
proof -
  have a: "(fst (GET_photos (map_option QStr sessionId) clientType s)
            = Error 404 InvalidCodeOrNoSession \<longleftrightarrow> absent s sessionId)"
    using assms
    by (cases sessionId)
       (auto simp: GET_photos_def get_property_def absent_def Let_def split: option.splits)
  have b: "\<forall>sid x. sessionId = Some sid \<and> session_of s sid = Some x \<longrightarrow>
            (fst (GET_photos (map_option QStr sessionId) clientType s) = Error 403 NotReadyYet
               \<longleftrightarrow> status x = Draft \<and> clientType \<noteq> Some ''photographer'')
          \<and> (\<not> (status x = Draft \<and> clientType \<noteq> Some ''photographer'') \<longrightarrow>
               fst (GET_photos (map_option QStr sessionId) clientType s) =
                 PhotosOk (map (\<lambda>p. \<lparr>view_id = photo_id p, view_url = url p,
                                      view_selected = selected p\<rparr>) (photos x)))"
    using assms by (auto simp: GET_photos_def get_property_def Let_def)
  have c: "snd (GET_photos (map_option QStr sessionId) clientType s) = s"
    by (cases sessionId)
       (simp_all add: GET_photos_def get_property_def Let_def split: option.splits)
  have d: "\<forall>g. fst (GET_photos (map_option QStr sessionId) clientType (rename_files g s))
               = fst (GET_photos (map_option QStr sessionId) clientType s)"
    by (cases sessionId)
       (simp_all add: GET_photos_def get_property_def Let_def session_of_rename_files comp_def
          split: option.splits)
  show ?thesis
    by (intro conjI; fact a b c d)
qed

text \<open>
  Claim C6 fails on the code for a session id that names an inherited member: no session
  is stored under \<open>constructor\<close>, yet \<open>GET /photos?sessionId=constructor\<close> is not
  answered with 404: the handler throws, whoever asks.
\<close>

theorem listPhotos_inherited_name_throws:
  "session_of sample_server ''constructor'' = None
   \<and> GET_photos (Some (QStr ''constructor'')) None sample_server
       = (ThrowsTypeError, sample_server)
   \<and> GET_photos (Some (QStr ''constructor'')) (Some ''photographer'') sample_server
       = (ThrowsTypeError, sample_server)
   \<and> GET_photos (Some (QStr ''nobody'')) None sample_server
       = (Error 404 InvalidCodeOrNoSession, sample_server)"
  by code_simp

subsection \<open>Finishing a session\<close>

text \<open>
  For every session id that names no member of \<open>Object.prototype\<close> (and a document
  without a session under the empty id) the handler does what C7 says:
  \<open>POST /finishSession\<close> answers 404 exactly when the request names no stored session, and 400 (the specification's InvalidState) exactly when the
  session is stored and has no photo; for a stored session with a photo it succeeds, sets
  the status to ready, leaves the photos, the customer name, the creation time, the other
  sessions and the portfolio as they were, and rewrites \<open>db.json\<close> (a failed write is only
  logged). A call that fails leaves the state as it was.
\<close>

lemma finishSession_outcomes:
  assumes "session_of s [] = None"
    and "\<forall>sid. sessionId = Some sid \<longrightarrow> sid \<notin> set Object_prototype_names"
  shows "(fst (POST_finishSession e sessionId s) = Error 404 SessionNotFound
            \<longleftrightarrow> absent s sessionId)
       \<and> (fst (POST_finishSession e sessionId s) = Error 400 NoPhotosCannotFinish
            \<longleftrightarrow> (\<exists>sid x. sessionId = Some sid \<and> session_of s sid = Some x \<and> photos x = []))
       \<and> (\<forall>sid x. sessionId = Some sid \<and> session_of s sid = Some x \<and> photos x \<noteq> [] \<longrightarrow>
            (\<exists>s'. POST_finishSession e sessionId s = (SessionFinished, s')
               \<and> session_of s' sid = Some (x\<lparr>status := Ready\<rparr>)
               \<and> (\<forall>k. k \<noteq> sid \<longrightarrow> session_of s' k = session_of s k)
               \<and> portfolioItems (dbData s') = portfolioItems (dbData s)
               \<and> dbFile s' = (if writeFile_ok e then Some (dbData s') else dbFile s)))
       \<and> (fst (POST_finishSession e sessionId s) \<noteq> SessionFinished \<longrightarrow>
            snd (POST_finishSession e sessionId s) = s)"
proof -
  have a: "(fst (POST_finishSession e sessionId s) = Error 404 SessionNotFound
            \<longleftrightarrow> absent s sessionId)"
    using assms
    by (cases sessionId) (auto simp: POST_finishSession_def get_property_def absent_def split: option.splits)
  have b: "(fst (POST_finishSession e sessionId s) = Error 400 NoPhotosCannotFinish
            \<longleftrightarrow> (\<exists>sid x. sessionId = Some sid \<and> session_of s sid = Some x \<and> photos x = []))"
    using assms
    by (cases sessionId) (auto simp: POST_finishSession_def get_property_def split: option.splits)
  have c: "\<forall>sid x. sessionId = Some sid \<and> session_of s sid = Some x \<and> photos x \<noteq> [] \<longrightarrow>
            (\<exists>s'. POST_finishSession e sessionId s = (SessionFinished, s')
               \<and> session_of s' sid = Some (x\<lparr>status := Ready\<rparr>)
               \<and> (\<forall>k. k \<noteq> sid \<longrightarrow> session_of s' k = session_of s k)
               \<and> portfolioItems (dbData s') = portfolioItems (dbData s)
               \<and> dbFile s' = (if writeFile_ok e then Some (dbData s') else dbFile s))"
    using assms
    by (auto simp: POST_finishSession_def get_property_def dbData_saveData dbFile_saveData map_of_update_property)
  have d: "fst (POST_finishSession e sessionId s) \<noteq> SessionFinished \<longrightarrow>
            snd (POST_finishSession e sessionId s) = s"
    by (simp add: POST_finishSession_def get_property_def split: option.splits)
  from a b c d show ?thesis by blast
qed


text \<open>
  Claim C7 fails on the code for a session id that names an inherited member: no session
  is stored under \<open>constructor\<close>, yet \<open>POST /finishSession\<close> with that id is not
  answered with 404: the handler throws on \<open>.photos.length\<close>.
\<close>

theorem finishSession_inherited_name_throws:
  "session_of sample_server ''constructor'' = None
   \<and> POST_finishSession sample_env (Some ''constructor'') sample_server
       = (ThrowsTypeError, sample_server)
   \<and> POST_finishSession sample_env (Some ''nobody'') sample_server
       = (Error 404 SessionNotFound, sample_server)"
  by code_simp

subsection \<open>Generating the QR code\<close>

text \<open>
  For every session id that names no member of \<open>Object.prototype\<close> the handler does
  what C9 says: \<open>POST /generateQRCode\<close> for a session id under which nothing is stored
  answers 400, never 404, and changes nothing; when both arguments are given it is
  the very response that a stored session without photos gets.
\<close>

lemma generateQRCode_absent_is_400:
  assumes "sessionId = Some sid" and "session_of s sid = None"
    and "sid \<notin> set Object_prototype_names"
  shows "http_status (fst (POST_generateQRCode e sessionId page s)) = Some 400
       \<and> http_status (fst (POST_generateQRCode e sessionId page s)) \<noteq> Some 404
       \<and> snd (POST_generateQRCode e sessionId page s) = s
       \<and> (sid \<noteq> [] \<and> given page \<noteq> None \<longrightarrow>
            fst (POST_generateQRCode e sessionId page s) = Error 400 NoSessionOrNoPhotos
            \<and> (\<forall>s' x. session_of s' sid = Some x \<and> photos x = [] \<longrightarrow>
                 fst (POST_generateQRCode e sessionId page s')
                   = fst (POST_generateQRCode e sessionId page s)))"
  using assms
  by (cases "given page") (auto simp: POST_generateQRCode_def get_property_def)


text \<open>
  Claim C9 fails on the code for a session id that names an inherited member: no session
  is stored under \<open>constructor\<close>, yet \<open>POST /generateQRCode\<close> with that id is not
  answered with 400: the handler throws on \<open>.photos.length\<close> and sends no status of
  its own.
\<close>

theorem generateQRCode_inherited_name_throws:
  "session_of sample_server ''constructor'' = None
   \<and> POST_generateQRCode sample_env (Some ''constructor'') (Some ''pages/select'') sample_server
       = (ThrowsTypeError, sample_server)
   \<and> http_status (fst (POST_generateQRCode sample_env (Some ''constructor'')
         (Some ''pages/select'') sample_server)) = None
   \<and> POST_generateQRCode sample_env (Some ''nobody'') (Some ''pages/select'') sample_server
       = (Error 400 NoSessionOrNoPhotos, sample_server)"
  by code_simp

subsection \<open>Uploading a photo\<close>

lemma or_default_nonempty: "d \<noteq> [] \<Longrightarrow> or_default x d \<noteq> []"
  by (cases x) (auto simp: or_default_def)

lemma UNKNOWN_CUSTOMER_nonempty: "UNKNOWN_CUSTOMER \<noteq> []"
  by (simp add: UNKNOWN_CUSTOMER_def)


text \<open>
  For every session id that names no member of \<open>Object.prototype\<close> the handler does
  what C8 says: an upload with a file and no session id (missing or empty) creates a
  session under the generated id (a \<open>uuidv4()\<close>, which is not \<open>__proto__\<close>); an upload with an id under which nothing is
  stored creates the session under that id. Either way the new session is a draft with
  the customer name of the request (or the default name) and exactly the uploaded photo,
  not selected, and the response carries the photo id, the photo's url and the session id.
  When the session is stored already the photo is appended, and the customer name is
  replaced only if the stored one is the default name. \<open>db.json\<close> is rewritten (a failed
  write is only logged).
\<close>

lemma upload_creates_or_extends_session:
  "(given sessionId = None \<and> uuidv4 e 1 \<noteq> ''__proto__'' \<longrightarrow>
      (\<exists>s'. POST_upload e (Some fname) sessionId name s
               = (UploadOk (uuidv4 e 0) (BASE_URL @ ''/uploads/'' @ fname) (uuidv4 e 1), s')
         \<and> session_of s' (uuidv4 e 1) =
             Some \<lparr>customerName = or_default name UNKNOWN_CUSTOMER,
                   photos = [uploaded_photo e fname], status = Draft, createdAt = newDate e 0\<rparr>
         \<and> (\<forall>k. k \<noteq> uuidv4 e 1 \<longrightarrow> session_of s' k = session_of s k)
         \<and> dbFile s' = (if writeFile_ok e then Some (dbData s') else dbFile s)))
   \<and> (\<forall>sid. given sessionId = Some sid \<and> session_of s sid = None
          \<and> sid \<notin> set Object_prototype_names \<longrightarrow>
      (\<exists>s'. POST_upload e (Some fname) sessionId name s
               = (UploadOk (uuidv4 e 0) (BASE_URL @ ''/uploads/'' @ fname) sid, s')
         \<and> session_of s' sid =
             Some \<lparr>customerName = or_default name UNKNOWN_CUSTOMER,
                   photos = [uploaded_photo e fname], status = Draft, createdAt = newDate e 0\<rparr>
         \<and> (\<forall>k. k \<noteq> sid \<longrightarrow> session_of s' k = session_of s k)
         \<and> dbFile s' = (if writeFile_ok e then Some (dbData s') else dbFile s)))
   \<and> (\<forall>sid x. given sessionId = Some sid \<and> session_of s sid = Some x \<longrightarrow>
      (\<exists>s'. POST_upload e (Some fname) sessionId name s
               = (UploadOk (uuidv4 e 0) (BASE_URL @ ''/uploads/'' @ fname) sid, s')
         \<and> session_of s' sid =
             Some (x\<lparr>customerName :=
                       (if customerName x = UNKNOWN_CUSTOMER then or_default name UNKNOWN_CUSTOMER
                        else customerName x),
                     photos := photos x @ [uploaded_photo e fname]\<rparr>)
         \<and> (\<forall>k. k \<noteq> sid \<longrightarrow> session_of s' k = session_of s k)
         \<and> dbFile s' = (if writeFile_ok e then Some (dbData s') else dbFile s)))"
proof -
  have ne: "or_default name UNKNOWN_CUSTOMER \<noteq> []"
    by (rule or_default_nonempty[OF UNKNOWN_CUSTOMER_nonempty])
  have a: "given sessionId = None \<and> uuidv4 e 1 \<noteq> ''__proto__'' \<longrightarrow>
      (\<exists>s'. POST_upload e (Some fname) sessionId name s
               = (UploadOk (uuidv4 e 0) (BASE_URL @ ''/uploads/'' @ fname) (uuidv4 e 1), s')
         \<and> session_of s' (uuidv4 e 1) =
             Some \<lparr>customerName = or_default name UNKNOWN_CUSTOMER,
                   photos = [uploaded_photo e fname], status = Draft, createdAt = newDate e 0\<rparr>
         \<and> (\<forall>k. k \<noteq> uuidv4 e 1 \<longrightarrow> session_of s' k = session_of s k)
         \<and> dbFile s' = (if writeFile_ok e then Some (dbData s') else dbFile s))"
    by (simp add: POST_upload_def get_property_def Let_def createNewSession_def uploaded_photo_def
          dbData_saveData dbFile_saveData map_of_update_property map_of_set_property)
  have b: "\<forall>sid. given sessionId = Some sid \<and> session_of s sid = None
          \<and> sid \<notin> set Object_prototype_names \<longrightarrow>
      (\<exists>s'. POST_upload e (Some fname) sessionId name s
               = (UploadOk (uuidv4 e 0) (BASE_URL @ ''/uploads/'' @ fname) sid, s')
         \<and> session_of s' sid =
             Some \<lparr>customerName = or_default name UNKNOWN_CUSTOMER,
                   photos = [uploaded_photo e fname], status = Draft, createdAt = newDate e 0\<rparr>
         \<and> (\<forall>k. k \<noteq> sid \<longrightarrow> session_of s' k = session_of s k)
         \<and> dbFile s' = (if writeFile_ok e then Some (dbData s') else dbFile s))"
    by (simp add: POST_upload_def get_property_def Let_def createNewSession_def uploaded_photo_def
          dbData_saveData dbFile_saveData map_of_update_property map_of_set_property)
  have c: "\<forall>sid x. given sessionId = Some sid \<and> session_of s sid = Some x \<longrightarrow>
      (\<exists>s'. POST_upload e (Some fname) sessionId name s
               = (UploadOk (uuidv4 e 0) (BASE_URL @ ''/uploads/'' @ fname) sid, s')
         \<and> session_of s' sid =
             Some (x\<lparr>customerName :=
                       (if customerName x = UNKNOWN_CUSTOMER then or_default name UNKNOWN_CUSTOMER
                        else customerName x),
                     photos := photos x @ [uploaded_photo e fname]\<rparr>)
         \<and> (\<forall>k. k \<noteq> sid \<longrightarrow> session_of s' k = session_of s k)
         \<and> dbFile s' = (if writeFile_ok e then Some (dbData s') else dbFile s))"
    using ne
    by (simp add: POST_upload_def get_property_def Let_def uploaded_photo_def
          dbData_saveData dbFile_saveData map_of_update_property)
  from a b c show ?thesis by blast
qed


text \<open>
  Claim C8 fails on the code for a session id that names an inherited member: no session
  is stored under \<open>__proto__\<close> or \<open>constructor\<close>, yet an upload with such an id creates
  no session: the handler takes the inherited member for the session and throws on
  \<open>.photos.push\<close>, and the document is what it was.
\<close>

theorem upload_inherited_name_throws:
  "session_of sample_server ''__proto__'' = None
   \<and> POST_upload sample_env (Some ''n.jpg'') (Some ''__proto__'') (Some ''Cy'') sample_server
       = (ThrowsTypeError, sample_server)
   \<and> session_of sample_server ''constructor'' = None
   \<and> POST_upload sample_env (Some ''n.jpg'') (Some ''constructor'') None sample_server
       = (ThrowsTypeError, sample_server)
   \<and> fst (POST_upload sample_env (Some ''n.jpg'') (Some ''nobody'') None sample_server)
       = UploadOk ''photo-new'' ''http://localhost:3000/uploads/n.jpg'' ''nobody''"
  by code_simp

end
